theory Spec2Isabelle
  imports Complex_Main
begin

section \<open>Values, exceptions and configuration\<close>

text \<open>
  JSON values as Python holds them after \<open>resp.json()\<close> and before \<open>json=payload\<close>:
  \<open>None\<close>, booleans, integers, floats (as the real number they denote), strings, lists
  and dicts (insertion ordered).
\<close>

datatype json =
    JNull
  | JBool bool
  | JInt int
  | JFloat real
  | JStr string
  | JList "json list"
  | JObj "(string \<times> json) list"

text \<open>
  What a handler can raise. \<open>HTTPException status detail\<close> is FastAPI's; every other
  Python exception (\<open>sqlite3.Error\<close>, \<open>KeyError\<close>, an \<open>httpx\<close> error, ...) is caught
  by nothing in \<^verbatim>\<open>main.py\<close> and reaches the framework, which answers 500.
\<close>

datatype exn =
    HTTPException int string
  | Unhandled string

fun status_code :: "exn \<Rightarrow> int" where
  "status_code (HTTPException s d) = s"
| "status_code (Unhandled name) = 500"

fun detail :: "exn \<Rightarrow> string" where
  "detail (HTTPException s d) = d"
| "detail (Unhandled name) = ''Internal Server Error''"

text \<open>\<open>class Config\<close>: the two settings the modelled code reads, and the fixed lifetime.\<close>

record config =
  JWT_SECRET :: string
  OPENAI_API_KEY :: string

definition JWT_EXPIRY_HOURS :: int where
  "JWT_EXPIRY_HOURS = 24"

section \<open>Library calls\<close>

text \<open>
  \<open>jwt.encode\<close> and \<open>jwt.decode\<close> (PyJWT, HS256) in the symbolic model of a MAC: a token
  is either a payload together with the key that signed it, or a string that is not a
  JWT at all. \<open>jwt.decode\<close> checks the structure, then the signature, then the
  \<open>exp\<close> claim against the clock (\<open>exp <= now\<close> is expired), in that order.
  \<open>ExpiredSignatureError\<close> is a subclass of \<open>InvalidTokenError\<close>; the source catches it
  first, so the two are kept apart here. Times are whole seconds since the epoch.
  The payload is the four-key dict \<open>create_token\<close> builds.
\<close>

record claims =
  tok_user_id :: int
  tok_email :: string
  tok_role :: string
  tok_exp :: int

datatype token =
    Jwt string claims
  | NotJwt string

datatype jwt_error = ExpiredSignatureError | InvalidTokenError

fun jwt_encode :: "claims \<Rightarrow> string \<Rightarrow> token" where
  "jwt_encode payload key = Jwt key payload"

fun jwt_decode :: "token \<Rightarrow> string \<Rightarrow> int \<Rightarrow> jwt_error + claims" where
  "jwt_decode (NotJwt s) key now = Inl InvalidTokenError"
| "jwt_decode (Jwt k payload) key now =
     (if k \<noteq> key then Inl InvalidTokenError
      else if tok_exp payload \<le> now then Inl ExpiredSignatureError
      else Inr payload)"

text \<open>
  \<open>passlib.hash.bcrypt\<close>, symbolically. Passwords are their UTF-8 bytes. Both \<open>hash\<close> and
  \<open>verify\<close> first check the password: one longer than passlib's maximum size raises
  \<open>PasswordSizeError\<close>, one with a NUL byte raises \<open>PasswordValueError\<close>. bcrypt reads
  only the first 72 bytes, so a hash records the salt and those bytes, and \<open>verify\<close>
  succeeds exactly on the passwords that start with them.
\<close>

datatype pwhash = Bcrypt nat string

definition MAX_PASSWORD_SIZE :: nat where
  "MAX_PASSWORD_SIZE = 4096"

definition bcrypt_secret :: "string \<Rightarrow> exn + string" where
  "bcrypt_secret password =
     (if MAX_PASSWORD_SIZE < length password then Inl (Unhandled ''PasswordSizeError'')
      else if CHR 0x00 \<in> set password then Inl (Unhandled ''PasswordValueError'')
      else Inr (take 72 password))"

fun bcrypt_hash :: "nat \<Rightarrow> string \<Rightarrow> exn + pwhash" where
  "bcrypt_hash salt password =
     (case bcrypt_secret password of
        Inl x \<Rightarrow> Inl x
      | Inr secret \<Rightarrow> Inr (Bcrypt salt secret))"

fun bcrypt_verify :: "string \<Rightarrow> pwhash \<Rightarrow> exn + bool" where
  "bcrypt_verify password (Bcrypt salt p) =
     (case bcrypt_secret password of
        Inl x \<Rightarrow> Inl x
      | Inr secret \<Rightarrow> Inr (p = secret))"

section \<open>Database, outside world and per-request environment\<close>

text \<open>Rows of the tables \<open>users\<close> and \<open>activity_log\<close> as \<open>init_db\<close> declares them.\<close>

record user_row =
  u_id :: int
  u_email :: string
  u_password_hash :: pwhash
  u_name :: string
  u_role :: string
  u_is_active :: bool
  u_created_at :: int
  u_last_login :: "int option"

record activity_row =
  a_id :: int
  a_user_id :: "int option"
  a_action :: string
  a_endpoint :: "string option"
  a_details :: "string option"
  a_ip_address :: "string option"
  a_created_at :: int

text \<open>
  The state a request can change: the two tables (rows in rowid order) and the trace
  of requests sent to the upstream services, each a URL with its JSON body.
\<close>

record world =
  users :: "user_row list"
  activity_log :: "activity_row list"
  upstream_calls :: "(string \<times> json) list"

text \<open>The SQL statements of \<^verbatim>\<open>main.py\<close>; each \<open>c.execute\<close> may raise \<open>sqlite3.Error\<close>.\<close>

datatype stmt =
    SelectUserByEmail
  | InsertUser
  | UpdateLastLogin
  | InsertActivity
  | SelectUsers
  | SelectActivity

text \<open>
  What a request reads from outside the program: the clock, the date of 365 days
  before it as \<open>strftime("%Y-%m-%d")\<close> prints it, the salt drawn by \<open>bcrypt.hash\<close>, which
  statements the storage engine refuses, and the answers of the two upstream services
  (\<open>Inl\<close>: the \<open>httpx\<close> call or \<open>resp.json()\<close> raised, with the exception's text;
  \<open>Inr\<close>: the parsed JSON body).
\<close>

record env =
  now :: int
  year_ago :: string
  salt :: nat
  fault :: "stmt \<Rightarrow> bool"
  re_http :: "string \<Rightarrow> json \<Rightarrow> string + json"
  openai_http :: "json \<Rightarrow> string + json"

definition sqlite3_Error :: exn where
  "sqlite3_Error = Unhandled ''sqlite3.Error''"

text \<open>\<open>INTEGER PRIMARY KEY AUTOINCREMENT\<close>: one more than the largest id so far.\<close>

definition next_id :: "int list \<Rightarrow> int" where
  "next_id ids = foldr max ids 0 + 1"

section \<open>Auth helpers\<close>

definition create_token :: "config \<Rightarrow> int \<Rightarrow> int \<Rightarrow> string \<Rightarrow> string \<Rightarrow> token" where
  "create_token cfg utcnow user_id email role =
     jwt_encode \<lparr>tok_user_id = user_id, tok_email = email, tok_role = role,
                 tok_exp = utcnow + JWT_EXPIRY_HOURS * 3600\<rparr> (JWT_SECRET cfg)"

definition decode_token :: "config \<Rightarrow> int \<Rightarrow> token \<Rightarrow> exn + claims" where
  "decode_token cfg utcnow token =
     (case jwt_decode token (JWT_SECRET cfg) utcnow of
        Inr payload \<Rightarrow> Inr payload
      | Inl ExpiredSignatureError \<Rightarrow> Inl (HTTPException 401 ''Token expired'')
      | Inl InvalidTokenError \<Rightarrow> Inl (HTTPException 401 ''Invalid token''))"

definition get_current_user :: "config \<Rightarrow> int \<Rightarrow> token \<Rightarrow> exn + claims" where
  "get_current_user cfg utcnow credentials = decode_token cfg utcnow credentials"

definition require_role :: "string list \<Rightarrow> config \<Rightarrow> int \<Rightarrow> token \<Rightarrow> exn + claims" where
  "require_role allowed_roles cfg utcnow credentials =
     (case get_current_user cfg utcnow credentials of
        Inl e \<Rightarrow> Inl e
      | Inr user \<Rightarrow>
          if tok_role user \<notin> set allowed_roles
          then Inl (HTTPException 403 ''Insufficient permissions'')
          else Inr user)"

section \<open>Activity logging\<close>

definition log_activity ::
  "env \<Rightarrow> int \<Rightarrow> string \<Rightarrow> string option \<Rightarrow> string option \<Rightarrow> string option \<Rightarrow> world
     \<Rightarrow> exn + world" where
  "log_activity e user_id action endpoint details ip w =
     (if fault e InsertActivity then Inl sqlite3_Error
      else Inr (w\<lparr>activity_log := activity_log w @
             [\<lparr>a_id = next_id (map a_id (activity_log w)), a_user_id = Some user_id,
               a_action = action, a_endpoint = endpoint, a_details = details,
               a_ip_address = ip, a_created_at = now e\<rparr>]\<rparr>))"

section \<open>Python's dict and sequence operations on JSON values\<close>

text \<open>\<open>bool(x)\<close>: \<open>None\<close>, \<open>False\<close>, \<open>0\<close>, \<open>""\<close>, \<open>[]\<close> and \<open>{}\<close> are false.\<close>

fun truthy :: "json \<Rightarrow> bool" where
  "truthy JNull = False"
| "truthy (JBool b) = b"
| "truthy (JInt n) = (n \<noteq> 0)"
| "truthy (JFloat x) = (x \<noteq> 0)"
| "truthy (JStr s) = (s \<noteq> [])"
| "truthy (JList xs) = (xs \<noteq> [])"
| "truthy (JObj kvs) = (kvs \<noteq> [])"

text \<open>\<open>x.get(key, default)\<close>: only a dict has the method.\<close>

fun dict_get :: "json \<Rightarrow> string \<Rightarrow> json \<Rightarrow> exn + json" where
  "dict_get (JObj kvs) key dflt = Inr (case map_of kvs key of None \<Rightarrow> dflt | Some v \<Rightarrow> v)"
| "dict_get j key dflt = Inl (Unhandled ''AttributeError'')"

text \<open>\<open>x[0]\<close>: the first element of a list or string; a dict parsed from JSON has only
  string keys, so the key \<open>0\<close> is never present.\<close>

fun getitem0 :: "json \<Rightarrow> exn + json" where
  "getitem0 (JList []) = Inl (Unhandled ''IndexError'')"
| "getitem0 (JList (x # xs)) = Inr x"
| "getitem0 (JStr []) = Inl (Unhandled ''IndexError'')"
| "getitem0 (JStr (c # cs)) = Inr (JStr [c])"
| "getitem0 (JObj kvs) = Inl (Unhandled ''KeyError'')"
| "getitem0 j = Inl (Unhandled ''TypeError'')"

fun and_then :: "exn + 'a \<Rightarrow> ('a \<Rightarrow> exn + 'b) \<Rightarrow> exn + 'b" where
  "and_then (Inl x) f = Inl x"
| "and_then (Inr v) f = f v"

fun opt_str :: "string option \<Rightarrow> json" where
  "opt_str None = JNull"
| "opt_str (Some s) = JStr s"

fun opt_int :: "int option \<Rightarrow> json" where
  "opt_int None = JNull"
| "opt_int (Some n) = JInt n"

section \<open>Real estate API client\<close>

definition BASE_URL :: string where
  "BASE_URL = ''https://api.realestateapi.com/v2''"

text \<open>\<open>RealEstateAPI._post\<close>: any exception of the call becomes the error dict.\<close>

definition RealEstateAPI_post :: "env \<Rightarrow> string \<Rightarrow> json \<Rightarrow> world \<Rightarrow> json \<times> world" where
  "RealEstateAPI_post e endpoint payload w =
     (let url = BASE_URL @ ''/'' @ endpoint
      in ((case re_http e url payload of
             Inl msg \<Rightarrow> JObj [(''error'', JStr msg), (''data'', JList [])]
           | Inr body \<Rightarrow> body),
          w\<lparr>upstream_calls := upstream_calls w @ [(url, payload)]\<rparr>))"

definition RealEstateAPI_autocomplete :: "env \<Rightarrow> string \<Rightarrow> world \<Rightarrow> json \<times> world" where
  "RealEstateAPI_autocomplete e address w =
     RealEstateAPI_post e ''AutoComplete'' (JObj [(''search'', JStr address)]) w"

definition RealEstateAPI_property_search ::
  "env \<Rightarrow> json list \<Rightarrow> int option \<Rightarrow> world \<Rightarrow> json \<times> world" where
  "RealEstateAPI_property_search e filters sz w =
     RealEstateAPI_post e ''PropertySearch''
       (JObj [(''search'', JList filters), (''size'', opt_int sz)]) w"

definition RealEstateAPI_property_detail :: "env \<Rightarrow> json \<Rightarrow> world \<Rightarrow> json \<times> world" where
  "RealEstateAPI_property_detail e address_id w =
     RealEstateAPI_post e ''PropertyDetail'' (JObj [(''address_id'', address_id)]) w"

text \<open>\<open>property_comps\<close> is only called with its default \<open>radius = 0.5\<close>.\<close>

definition RealEstateAPI_property_comps :: "env \<Rightarrow> json \<Rightarrow> real \<Rightarrow> world \<Rightarrow> json \<times> world" where
  "RealEstateAPI_property_comps e address_id radius w =
     RealEstateAPI_post e ''PropertyComps''
       (JObj [(''address_id'', address_id), (''radius'', JFloat radius), (''size'', JInt 5)]) w"

definition RealEstateAPI_skip_trace :: "env \<Rightarrow> json \<Rightarrow> world \<Rightarrow> json \<times> world" where
  "RealEstateAPI_skip_trace e address_id w =
     RealEstateAPI_post e ''SkipTrace'' (JObj [(''address_id'', address_id)]) w"

section \<open>AI client\<close>

definition OPENAI_URL :: string where
  "OPENAI_URL = ''https://api.openai.com/v1/chat/completions''"

definition openai_messages :: "string \<Rightarrow> string option \<Rightarrow> json list" where
  "openai_messages prompt ctx =
     (case ctx of
        None \<Rightarrow> []
      | Some c \<Rightarrow> if c = [] then []
                  else [JObj [(''role'', JStr ''system''), (''content'', JStr c)]])
     @ [JObj [(''role'', JStr ''user''), (''content'', JStr prompt)]]"

definition openai_payload :: "string \<Rightarrow> string option \<Rightarrow> json" where
  "openai_payload prompt ctx =
     JObj [(''model'', JStr ''gpt-4o''), (''messages'', JList (openai_messages prompt ctx)),
           (''max_tokens'', JInt 1000)]"

text \<open>\<open>data.get("choices", [{}])[0].get("message", {}).get("content", "No response")\<close>\<close>

definition openai_content :: "json \<Rightarrow> exn + json" where
  "openai_content data =
     and_then (dict_get data ''choices'' (JList [JObj []])) (\<lambda>choices.
     and_then (getitem0 choices) (\<lambda>choice.
     and_then (dict_get choice ''message'' (JObj [])) (\<lambda>message.
     dict_get message ''content'' (JStr ''No response''))))"

definition query_openai ::
  "config \<Rightarrow> env \<Rightarrow> string \<Rightarrow> string option \<Rightarrow> world \<Rightarrow> (exn + json) \<times> world" where
  "query_openai cfg e prompt ctx w =
     (if OPENAI_API_KEY cfg = [] then (Inr (JStr ''OpenAI not configured''), w)
      else
        let payload = openai_payload prompt ctx;
            w1 = w\<lparr>upstream_calls := upstream_calls w @ [(OPENAI_URL, payload)]\<rparr>
        in (case openai_http e payload of
              Inl msg \<Rightarrow> (Inl (Unhandled msg), w1)
            | Inr data \<Rightarrow> (openai_content data, w1)))"

section \<open>Request and response models\<close>

record user_create =
  uc_email :: string
  uc_password :: string
  uc_name :: string
  uc_role :: string

record user_login =
  ul_email :: string
  ul_password :: string

record user_response =
  ur_id :: int
  ur_email :: string
  ur_name :: string
  ur_role :: string
  ur_is_active :: bool

record token_response =
  access_token :: token
  token_type :: string
  user :: user_response

record property_search_request =
  city :: string
  state :: string
  min_equity :: "int option"
  absentee_only :: "bool option"
  min_year_built :: "int option"
  max_results :: "int option"

record address_lookup_request =
  address :: string

record buyer_search_request =
  b_city :: string
  b_state :: string
  min_purchases :: "int option"
  b_max_results :: "int option"

record ai_query_request =
  req_query :: string
  req_context :: "string option"
  req_model :: "string option"

text \<open>
  \<open>AIQueryRequest\<close> built from a request body: a field the body leaves out
  (\<open>None\<close> here) takes the default of the class, a field given as \<open>null\<close> is \<open>None\<close>.
\<close>

definition AIQueryRequest ::
  "string \<Rightarrow> string option option \<Rightarrow> string option option \<Rightarrow> ai_query_request" where
  "AIQueryRequest q c m =
     \<lparr>req_query = q,
      req_context = (case c of None \<Rightarrow> None | Some v \<Rightarrow> v),
      req_model = (case m of None \<Rightarrow> Some ''gpt-4o'' | Some v \<Rightarrow> v)\<rparr>"

section \<open>Auth endpoints\<close>

definition register ::
  "config \<Rightarrow> env \<Rightarrow> user_create \<Rightarrow> string \<Rightarrow> world \<Rightarrow> (exn + token_response) \<times> world" where
  "register cfg e u ip w =
     (if fault e SelectUserByEmail then (Inl sqlite3_Error, w)
      else case find (\<lambda>r. u_email r = uc_email u) (users w) of
        Some r \<Rightarrow> (Inl (HTTPException 400 ''Email already registered''), w)
      | None \<Rightarrow>
          (case bcrypt_hash (salt e) (uc_password u) of
             Inl x \<Rightarrow> (Inl x, w)
           | Inr password_hash \<Rightarrow>
               if fault e InsertUser then (Inl sqlite3_Error, w)
               else
                 let user_id = next_id (map u_id (users w));
                     w1 = w\<lparr>users := users w @
                            [\<lparr>u_id = user_id, u_email = uc_email u,
                              u_password_hash = password_hash, u_name = uc_name u,
                              u_role = uc_role u, u_is_active = True,
                              u_created_at = now e, u_last_login = None\<rparr>]\<rparr>;
                     token = create_token cfg (now e) user_id (uc_email u) (uc_role u)
                 in (case log_activity e user_id ''register'' (Some ''/api/v1/auth/register'')
                            None (Some ip) w1 of
                       Inl x \<Rightarrow> (Inl x, w1)
                     | Inr w2 \<Rightarrow>
                         (Inr \<lparr>access_token = token, token_type = ''bearer'',
                               user = \<lparr>ur_id = user_id, ur_email = uc_email u,
                                        ur_name = uc_name u, ur_role = uc_role u,
                                        ur_is_active = True\<rparr>\<rparr>, w2))))"

definition login ::
  "config \<Rightarrow> env \<Rightarrow> user_login \<Rightarrow> string \<Rightarrow> world \<Rightarrow> (exn + token_response) \<times> world" where
  "login cfg e credentials ip w =
     (if fault e SelectUserByEmail then (Inl sqlite3_Error, w)
      else case find (\<lambda>r. u_email r = ul_email credentials) (users w) of
        None \<Rightarrow> (Inl (HTTPException 401 ''Invalid credentials''), w)
      | Some r \<Rightarrow>
          (case bcrypt_verify (ul_password credentials) (u_password_hash r) of
             Inl x \<Rightarrow> (Inl x, w)
           | Inr verified \<Rightarrow>
               if \<not> verified
               then (Inl (HTTPException 401 ''Invalid credentials''), w)
               else if \<not> u_is_active r
               then (Inl (HTTPException 401 ''Account disabled''), w)
               else if fault e UpdateLastLogin then (Inl sqlite3_Error, w)
               else
                 let w1 = w\<lparr>users := map (\<lambda>x. if u_id x = u_id r
                                                  then x\<lparr>u_last_login := Some (now e)\<rparr> else x)
                                           (users w)\<rparr>;
                     token = create_token cfg (now e) (u_id r) (u_email r) (u_role r)
                 in (case log_activity e (u_id r) ''login'' (Some ''/api/v1/auth/login'')
                            None (Some ip) w1 of
                       Inl x \<Rightarrow> (Inl x, w1)
                     | Inr w2 \<Rightarrow>
                         (Inr \<lparr>access_token = token, token_type = ''bearer'',
                               user = \<lparr>ur_id = u_id r, ur_email = u_email r,
                                        ur_name = u_name r, ur_role = u_role r,
                                        ur_is_active = True\<rparr>\<rparr>, w2))))"

section \<open>Property and skip trace endpoints\<close>

text \<open>The local \<open>filters\<close> of \<open>search_properties\<close>; \<open>if req.min_equity:\<close> is Python's
  truth test of an \<open>Optional[int]\<close>: \<open>None\<close> and \<open>0\<close> are false.\<close>

definition search_filters :: "property_search_request \<Rightarrow> json list" where
  "search_filters req =
     [JObj [(''field'', JStr ''city''), (''value'', JStr (city req)), (''operator'', JStr ''='')],
      JObj [(''field'', JStr ''state''), (''value'', JStr (state req)), (''operator'', JStr ''='')]]
     @ (case min_equity req of
          None \<Rightarrow> []
        | Some n \<Rightarrow> if n = 0 then []
                    else [JObj [(''field'', JStr ''equity_percent''), (''value'', JInt n),
                                (''operator'', JStr ''ge'')]])
     @ (case absentee_only req of
          None \<Rightarrow> []
        | Some b \<Rightarrow> if b then [JObj [(''field'', JStr ''absentee_owner''), (''value'', JBool True),
                                      (''operator'', JStr ''='')]]
                    else [])
     @ (case min_year_built req of
          None \<Rightarrow> []
        | Some n \<Rightarrow> if n = 0 then []
                    else [JObj [(''field'', JStr ''year_built''), (''value'', JInt n),
                                (''operator'', JStr ''ge'')]])"

definition search_properties ::
  "config \<Rightarrow> env \<Rightarrow> property_search_request \<Rightarrow> string \<Rightarrow> token \<Rightarrow> world
     \<Rightarrow> (exn + json) \<times> world" where
  "search_properties cfg e req ip credentials w =
     (case get_current_user cfg (now e) credentials of
        Inl x \<Rightarrow> (Inl x, w)
      | Inr usr \<Rightarrow>
          (case RealEstateAPI_property_search e (search_filters req) (max_results req) w of
             (result, w1) \<Rightarrow>
               (case log_activity e (tok_user_id usr) ''property_search''
                       (Some ''/api/v1/properties/search'')
                       (Some (city req @ '', '' @ state req)) (Some ip) w1 of
                  Inl x \<Rightarrow> (Inl x, w1)
                | Inr w2 \<Rightarrow> (Inr result, w2))))"

definition lookup_property ::
  "config \<Rightarrow> env \<Rightarrow> address_lookup_request \<Rightarrow> string \<Rightarrow> token \<Rightarrow> world
     \<Rightarrow> (exn + json) \<times> world" where
  "lookup_property cfg e req ip credentials w =
     (case get_current_user cfg (now e) credentials of
        Inl x \<Rightarrow> (Inl x, w)
      | Inr usr \<Rightarrow>
          (case RealEstateAPI_autocomplete e (address req) w of
             (autocomplete, w1) \<Rightarrow>
               (case dict_get autocomplete ''data'' JNull of
                  Inl x \<Rightarrow> (Inl x, w1)
                | Inr d \<Rightarrow>
                    if \<not> truthy d then (Inl (HTTPException 404 ''Address not found''), w1)
                    else
                      (case and_then (getitem0 d) (\<lambda>x. dict_get x ''address_id'' JNull) of
                         Inl x \<Rightarrow> (Inl x, w1)
                       | Inr address_id \<Rightarrow>
                           (case RealEstateAPI_property_detail e address_id w1 of
                              (detail_result, w2) \<Rightarrow>
                                (case log_activity e (tok_user_id usr) ''property_lookup''
                                        (Some ''/api/v1/properties/lookup'') (Some (address req))
                                        (Some ip) w2 of
                                   Inl x \<Rightarrow> (Inl x, w2)
                                 | Inr w3 \<Rightarrow>
                                     (Inr (JObj [(''autocomplete'', autocomplete),
                                                 (''detail'', detail_result)]), w3)))))))"

definition get_comps ::
  "config \<Rightarrow> env \<Rightarrow> address_lookup_request \<Rightarrow> string \<Rightarrow> token \<Rightarrow> world
     \<Rightarrow> (exn + json) \<times> world" where
  "get_comps cfg e req ip credentials w =
     (case get_current_user cfg (now e) credentials of
        Inl x \<Rightarrow> (Inl x, w)
      | Inr usr \<Rightarrow>
          (case RealEstateAPI_autocomplete e (address req) w of
             (autocomplete, w1) \<Rightarrow>
               (case dict_get autocomplete ''data'' JNull of
                  Inl x \<Rightarrow> (Inl x, w1)
                | Inr d \<Rightarrow>
                    if \<not> truthy d then (Inl (HTTPException 404 ''Address not found''), w1)
                    else
                      (case and_then (getitem0 d) (\<lambda>x. dict_get x ''address_id'' JNull) of
                         Inl x \<Rightarrow> (Inl x, w1)
                       | Inr address_id \<Rightarrow>
                           (case RealEstateAPI_property_comps e address_id 0.5 w1 of
                              (comps, w2) \<Rightarrow>
                                (case log_activity e (tok_user_id usr) ''get_comps''
                                        (Some ''/api/v1/properties/comps'') (Some (address req))
                                        (Some ip) w2 of
                                   Inl x \<Rightarrow> (Inl x, w2)
                                 | Inr w3 \<Rightarrow> (Inr comps, w3)))))))"

definition skip_trace ::
  "config \<Rightarrow> env \<Rightarrow> address_lookup_request \<Rightarrow> string \<Rightarrow> token \<Rightarrow> world
     \<Rightarrow> (exn + json) \<times> world" where
  "skip_trace cfg e req ip credentials w =
     (case require_role [''admin'', ''manager'', ''acquisitions''] cfg (now e) credentials of
        Inl x \<Rightarrow> (Inl x, w)
      | Inr usr \<Rightarrow>
          (case RealEstateAPI_autocomplete e (address req) w of
             (autocomplete, w1) \<Rightarrow>
               (case dict_get autocomplete ''data'' JNull of
                  Inl x \<Rightarrow> (Inl x, w1)
                | Inr d \<Rightarrow>
                    if \<not> truthy d then (Inl (HTTPException 404 ''Address not found''), w1)
                    else
                      (case and_then (getitem0 d) (\<lambda>x. dict_get x ''address_id'' JNull) of
                         Inl x \<Rightarrow> (Inl x, w1)
                       | Inr address_id \<Rightarrow>
                           (case RealEstateAPI_skip_trace e address_id w1 of
                              (result, w2) \<Rightarrow>
                                (case log_activity e (tok_user_id usr) ''skip_trace''
                                        (Some ''/api/v1/skip-trace'') (Some (address req))
                                        (Some ip) w2 of
                                   Inl x \<Rightarrow> (Inl x, w2)
                                 | Inr w3 \<Rightarrow> (Inr result, w3)))))))"

section \<open>Buyer search endpoint\<close>

text \<open>\<open>for prop in v\<close>: the elements of a list, the characters of a string, the keys of
  a dict; nothing else of JSON is iterable.\<close>

fun py_iter :: "json \<Rightarrow> exn + json list" where
  "py_iter (JList xs) = Inr xs"
| "py_iter (JStr s) = Inr (map (\<lambda>c. JStr [c]) s)"
| "py_iter (JObj kvs) = Inr (map (\<lambda>kv. JStr (fst kv)) kvs)"
| "py_iter j = Inl (Unhandled ''TypeError'')"

text \<open>Keys of a Python dict: lists and dicts are unhashable, and numbers that are equal
  (\<open>1\<close>, \<open>1.0\<close>, \<open>True\<close>) are the same key.\<close>

fun hashable :: "json \<Rightarrow> bool" where
  "hashable (JList xs) = False"
| "hashable (JObj kvs) = False"
| "hashable j = True"

fun key_number :: "json \<Rightarrow> real option" where
  "key_number (JBool b) = Some (if b then 1 else 0)"
| "key_number (JInt n) = Some (real_of_int n)"
| "key_number (JFloat x) = Some x"
| "key_number j = None"

definition same_key :: "json \<Rightarrow> json \<Rightarrow> bool" where
  "same_key a b = (case key_number a of Some x \<Rightarrow> key_number b = Some x | None \<Rightarrow> a = b)"

text \<open>\<open>buyer_counts\<close>: per owner name, in order of first appearance, the count and the
  properties.\<close>

type_synonym buyer_counts = "(json \<times> nat \<times> json list) list"

fun add_purchase :: "json \<Rightarrow> json \<Rightarrow> buyer_counts \<Rightarrow> buyer_counts" where
  "add_purchase owner_name prop [] = [(owner_name, 1, [prop])]"
| "add_purchase owner_name prop ((k, c, ps) # rest) =
     (if same_key owner_name k then (k, c + 1, ps @ [prop]) # rest
      else (k, c, ps) # add_purchase owner_name prop rest)"

text \<open>\<open>owner.get("name", "") if isinstance(owner, dict) else str(owner)\<close>; Python's
  built-in \<open>str\<close> is a parameter.\<close>

definition owner_name_of :: "(json \<Rightarrow> string) \<Rightarrow> json \<Rightarrow> json" where
  "owner_name_of py_str owner =
     (case owner of
        JObj kvs \<Rightarrow> (case map_of kvs ''name'' of None \<Rightarrow> JStr [] | Some v \<Rightarrow> v)
      | _ \<Rightarrow> JStr (py_str owner))"

text \<open>The loop \<open>for prop in result.get("data", [])\<close> of \<open>search_buyers\<close>.\<close>

fun count_buyers :: "(json \<Rightarrow> string) \<Rightarrow> json list \<Rightarrow> buyer_counts \<Rightarrow> exn + buyer_counts" where
  "count_buyers py_str [] bc = Inr bc"
| "count_buyers py_str (prop # props) bc =
     (case dict_get prop ''owner'' (JObj []) of
        Inl x \<Rightarrow> Inl x
      | Inr owner \<Rightarrow>
          if \<not> truthy (owner_name_of py_str owner) then count_buyers py_str props bc
          else if \<not> hashable (owner_name_of py_str owner) then Inl (Unhandled ''TypeError'')
          else count_buyers py_str props (add_purchase (owner_name_of py_str owner) prop bc))"

definition buyer_json :: "json \<times> nat \<times> json list \<Rightarrow> json" where
  "buyer_json b =
     (case b of (name, c, ps) \<Rightarrow>
        JObj [(''name'', name), (''purchase_count'', JInt (int c)),
              (''recent_properties'', JList (take 3 ps))])"

text \<open>The list comprehension and the stable \<open>sort(..., reverse=True)\<close> by
  \<open>purchase_count\<close>; \<open>data["count"] >= req.min_purchases\<close> raises \<open>TypeError\<close> when
  \<open>min_purchases\<close> is \<open>None\<close> and there is an owner to compare.\<close>

definition portfolio_buyers :: "int option \<Rightarrow> buyer_counts \<Rightarrow> exn + json list" where
  "portfolio_buyers min_p bc =
     (case min_p of
        None \<Rightarrow> if bc = [] then Inr [] else Inl (Unhandled ''TypeError'')
      | Some m \<Rightarrow>
          Inr (map buyer_json
                 (sort_key (\<lambda>b. - int (fst (snd b)))
                    (filter (\<lambda>b. m \<le> int (fst (snd b))) bc))))"

text \<open>\<open>xs[:n]\<close>: everything for \<open>None\<close>, all but the last \<open>-n\<close> for a negative \<open>n\<close>.\<close>

fun slice_to :: "int option \<Rightarrow> 'a list \<Rightarrow> 'a list" where
  "slice_to None xs = xs"
| "slice_to (Some n) xs =
     (if 0 \<le> n then take (nat n) xs else take (length xs - nat (- n)) xs)"

definition buyer_filters :: "env \<Rightarrow> buyer_search_request \<Rightarrow> json list" where
  "buyer_filters e req =
     [JObj [(''field'', JStr ''city''), (''value'', JStr (b_city req)), (''operator'', JStr ''='')],
      JObj [(''field'', JStr ''state''), (''value'', JStr (b_state req)), (''operator'', JStr ''='')],
      JObj [(''field'', JStr ''last_sale_date''), (''value'', JStr (year_ago e)),
            (''operator'', JStr ''ge'')]]"

definition search_buyers ::
  "(json \<Rightarrow> string) \<Rightarrow> config \<Rightarrow> env \<Rightarrow> buyer_search_request \<Rightarrow> string \<Rightarrow> token \<Rightarrow> world
     \<Rightarrow> (exn + json) \<times> world" where
  "search_buyers py_str cfg e req ip credentials w =
     (case get_current_user cfg (now e) credentials of
        Inl x \<Rightarrow> (Inl x, w)
      | Inr usr \<Rightarrow>
          (case RealEstateAPI_property_search e (buyer_filters e req) (b_max_results req) w of
             (result, w1) \<Rightarrow>
               (case and_then (dict_get result ''data'' (JList [])) (\<lambda>d.
                     and_then (py_iter d) (\<lambda>props.
                     and_then (count_buyers py_str props [])
                       (portfolio_buyers (min_purchases req)))) of
                  Inl x \<Rightarrow> (Inl x, w1)
                | Inr buyers \<Rightarrow>
                    (case log_activity e (tok_user_id usr) ''buyer_search''
                            (Some ''/api/v1/buyers/search'')
                            (Some (b_city req @ '', '' @ b_state req)) (Some ip) w1 of
                       Inl x \<Rightarrow> (Inl x, w1)
                     | Inr w2 \<Rightarrow>
                         (Inr (JObj [(''buyers'', JList (slice_to (b_max_results req) buyers))]),
                          w2)))))"

section \<open>AI assistant endpoint\<close>

definition DEFAULT_CONTEXT :: string where
  "DEFAULT_CONTEXT =
     ''You are the REI Nationwide AI Assistant. '' @ [CHR 0x0A] @
     ''    Help the team with real estate investment questions, deal analysis, and strategy.''"

text \<open>\<open>req.context or """You are ..."""\<close>: \<open>None\<close> and the empty string are false.\<close>

definition ai_query_context :: "ai_query_request \<Rightarrow> string" where
  "ai_query_context req =
     (case req_context req of
        None \<Rightarrow> DEFAULT_CONTEXT
      | Some c \<Rightarrow> if c = [] then DEFAULT_CONTEXT else c)"

definition ai_query ::
  "config \<Rightarrow> env \<Rightarrow> ai_query_request \<Rightarrow> string \<Rightarrow> token \<Rightarrow> world
     \<Rightarrow> (exn + json) \<times> world" where
  "ai_query cfg e req ip credentials w =
     (case get_current_user cfg (now e) credentials of
        Inl x \<Rightarrow> (Inl x, w)
      | Inr usr \<Rightarrow>
          let ctx = ai_query_context req
          in (case query_openai cfg e (req_query req) (Some ctx) w of
                (Inl x, w1) \<Rightarrow> (Inl x, w1)
              | (Inr response, w1) \<Rightarrow>
                  (case log_activity e (tok_user_id usr) ''ai_query'' (Some ''/api/v1/ai/query'')
                          (Some (take 100 (req_query req))) (Some ip) w1 of
                     Inl x \<Rightarrow> (Inl x, w1)
                   | Inr w2 \<Rightarrow>
                       (Inr (JObj [(''response'', response),
                                   (''model'', opt_str (req_model req))]), w2))))"

section \<open>Admin endpoints\<close>

record user_listing =
  l_id :: int
  l_email :: string
  l_name :: string
  l_role :: string
  l_is_active :: bool
  l_created_at :: int
  l_last_login :: "int option"

definition list_users ::
  "config \<Rightarrow> env \<Rightarrow> token \<Rightarrow> world \<Rightarrow> (exn + user_listing list) \<times> world" where
  "list_users cfg e credentials w =
     (case require_role [''admin''] cfg (now e) credentials of
        Inl x \<Rightarrow> (Inl x, w)
      | Inr usr \<Rightarrow>
          if fault e SelectUsers then (Inl sqlite3_Error, w)
          else (Inr (map (\<lambda>r. \<lparr>l_id = u_id r, l_email = u_email r, l_name = u_name r,
                                  l_role = u_role r, l_is_active = u_is_active r,
                                  l_created_at = u_created_at r,
                                  l_last_login = u_last_login r\<rparr>) (users w)), w))"

text \<open>One entry of the \<open>"activity"\<close> list \<open>get_activity\<close> returns.\<close>

record activity_entry =
  e_id :: int
  e_user_name :: "string option"
  e_user_email :: "string option"
  e_action :: string
  e_endpoint :: "string option"
  e_details :: "string option"
  e_ip :: "string option"
  e_timestamp :: int

definition activity_entry_of ::
  "activity_row \<Rightarrow> string option \<Rightarrow> string option \<Rightarrow> activity_entry" where
  "activity_entry_of a nm em =
     \<lparr>e_id = a_id a, e_user_name = nm, e_user_email = em, e_action = a_action a,
      e_endpoint = a_endpoint a, e_details = a_details a, e_ip = a_ip_address a,
      e_timestamp = a_created_at a\<rparr>"

text \<open>\<open>FROM activity_log a LEFT JOIN users u ON a.user_id = u.id\<close>: one result row per
  matching user, and one with NULL \<open>u\<close> columns when no user matches.\<close>

definition left_join_users :: "user_row list \<Rightarrow> activity_row \<Rightarrow> activity_entry list" where
  "left_join_users us a =
     (case filter (\<lambda>u. a_user_id a = Some (u_id u)) us of
        [] \<Rightarrow> [activity_entry_of a None None]
      | m # ms \<Rightarrow> map (\<lambda>u. activity_entry_of a (Some (u_name u)) (Some (u_email u))) (m # ms))"

text \<open>An \<open>int\<close> that \<open>sqlite3\<close> can bind to a \<open>?\<close>: one that fits SQLite's signed 64-bit
  INTEGER; \<open>c.execute\<close> raises \<open>OverflowError\<close> on any other.\<close>

definition sqlite_int :: "int \<Rightarrow> bool" where
  "sqlite_int n = (- (2 ^ 63) \<le> n \<and> n < 2 ^ 63)"

text \<open>\<open>LIMIT ?\<close> in SQLite: a negative value means no upper bound on the rows.\<close>

definition sql_limit :: "int \<Rightarrow> 'a list \<Rightarrow> 'a list" where
  "sql_limit n rows = (if n < 0 then rows else take (nat n) rows)"

text \<open>\<open>ORDER BY a.created_at DESC\<close>; SQL leaves the order of rows with equal
  \<open>created_at\<close> open, the model keeps them in scan order.\<close>

definition select_activity :: "world \<Rightarrow> int \<Rightarrow> activity_entry list" where
  "select_activity w n =
     sql_limit n (sort_key (\<lambda>r. - e_timestamp r)
                    (concat (map (left_join_users (users w)) (activity_log w))))"

definition get_activity ::
  "config \<Rightarrow> env \<Rightarrow> int option \<Rightarrow> token \<Rightarrow> world \<Rightarrow> (exn + activity_entry list) \<times> world" where
  "get_activity cfg e limit_param credentials w =
     (let limit = (case limit_param of None \<Rightarrow> 100 | Some n \<Rightarrow> n)
      in case require_role [''admin'', ''manager''] cfg (now e) credentials of
           Inl x \<Rightarrow> (Inl x, w)
         | Inr usr \<Rightarrow>
             if \<not> sqlite_int limit then (Inl (Unhandled ''OverflowError''), w)
             else if fault e SelectActivity then (Inl sqlite3_Error, w)
             else (Inr (select_activity w limit), w))"

section \<open>Vocabulary of the properties\<close>

text \<open>The token fails validation, or it validates and its role is not an allowed one.\<close>

definition gate_rejects :: "string list \<Rightarrow> config \<Rightarrow> int \<Rightarrow> token \<Rightarrow> bool" where
  "gate_rejects allowed_roles cfg utcnow credentials =
     (case decode_token cfg utcnow credentials of
        Inl x \<Rightarrow> True
      | Inr usr \<Rightarrow> tok_role usr \<notin> set allowed_roles)"

text \<open>A filter dict of the upstream query that names the given field.\<close>

definition has_field :: "string \<Rightarrow> json \<Rightarrow> bool" where
  "has_field f j = (dict_get j ''field'' JNull = Inr (JStr f))"

text \<open>The user a log row refers to, if the table has one with that id.\<close>

definition actor_of :: "user_row list \<Rightarrow> activity_row \<Rightarrow> user_row option" where
  "actor_of us a =
     (case a_user_id a of None \<Rightarrow> None | Some i \<Rightarrow> find (\<lambda>u. u_id u = i) us)"

definition joined_entry :: "user_row list \<Rightarrow> activity_row \<Rightarrow> activity_entry" where
  "joined_entry us a =
     activity_entry_of a (map_option u_name (actor_of us a)) (map_option u_email (actor_of us a))"

text \<open>Most recent first: no entry is followed by one with a later timestamp.\<close>

definition newest_first :: "activity_entry list \<Rightarrow> bool" where
  "newest_first rows = sorted_wrt (\<lambda>r1 r2. e_timestamp r2 \<le> e_timestamp r1) rows"

text \<open>Strictly so: every entry is followed only by entries with an earlier timestamp.\<close>

definition strictly_newest_first :: "activity_entry list \<Rightarrow> bool" where
  "strictly_newest_first rows = sorted_wrt (\<lambda>r1 r2. e_timestamp r2 < e_timestamp r1) rows"

text \<open>A password that \<open>bcrypt.hash\<close> and \<open>bcrypt.verify\<close> accept.\<close>

definition valid_password :: "string \<Rightarrow> bool" where
  "valid_password password =
     (length password \<le> MAX_PASSWORD_SIZE \<and> CHR 0x00 \<notin> set password)"

text \<open>The same environment with the log write succeeding, and the outcome a request
  has when everything but the log write went as in a given outcome.\<close>

definition audit_up :: "env \<Rightarrow> env" where
  "audit_up e = e\<lparr>fault := (fault e)(InsertActivity := False)\<rparr>"

fun audit_failed :: "exn + 'a \<Rightarrow> exn + 'a" where
  "audit_failed (Inl x) = Inl x"
| "audit_failed (Inr r) = Inl sqlite3_Error"

section \<open>Example inputs\<close>

text \<open>A healthy environment, two faulty ones, a small user table and tokens for it.\<close>

definition example_config :: config where
  "example_config = \<lparr>JWT_SECRET = ''test-secret'', OPENAI_API_KEY = ''sk-test''\<rparr>"

definition example_env :: env where
  "example_env =
     \<lparr>now = 1000, year_ago = ''1969-01-01'', salt = 7, fault = (\<lambda>s. False),
      re_http = (\<lambda>url body. Inr (JObj [(''data'', JList [JObj [(''address_id'', JStr ''A1'')]])])),
      openai_http = (\<lambda>body. Inr (JObj [(''choices'',
                       JList [JObj [(''message'', JObj [(''content'', JStr ''Hello'')])]])]))\<rparr>"

definition audit_down_env :: env where
  "audit_down_env = example_env\<lparr>fault := (\<lambda>s. s = InsertActivity)\<rparr>"

definition touch_down_env :: env where
  "touch_down_env = example_env\<lparr>fault := (\<lambda>s. s = UpdateLastLogin)\<rparr>"

definition alice :: user_row where
  "alice = \<lparr>u_id = 1, u_email = ''alice@example.com'', u_password_hash = Bcrypt 3 ''pw-alice'',
            u_name = ''Alice'', u_role = ''admin'', u_is_active = True, u_created_at = 10,
            u_last_login = None\<rparr>"

definition bob :: user_row where
  "bob = \<lparr>u_id = 2, u_email = ''bob@example.com'', u_password_hash = Bcrypt 4 ''pw-bob'',
          u_name = ''Bob'', u_role = ''member'', u_is_active = False, u_created_at = 20,
          u_last_login = None\<rparr>"

definition example_world :: world where
  "example_world = \<lparr>users = [alice, bob], activity_log = [], upstream_calls = []\<rparr>"

definition admin_token :: token where
  "admin_token = create_token example_config 900 1 ''alice@example.com'' ''admin''"

definition member_token :: token where
  "member_token = create_token example_config 900 2 ''bob@example.com'' ''member''"

definition stale_admin_token :: token where
  "stale_admin_token = create_token example_config (- 90000) 1 ''alice@example.com'' ''admin''"

definition carol :: user_create where
  "carol = \<lparr>uc_email = ''carol@example.com'', uc_password = ''pw-carol'', uc_name = ''Carol'',
            uc_role = ''member''\<rparr>"

definition example_search :: property_search_request where
  "example_search = \<lparr>city = ''Austin'', state = ''TX'', min_equity = Some 40,
                      absentee_only = Some False, min_year_built = None, max_results = Some 10\<rparr>"

text \<open>Rows an explicit login, a search and a question use in the examples below.\<close>

definition example_login :: user_login where
  "example_login = \<lparr>ul_email = ''alice@example.com'', ul_password = ''pw-alice''\<rparr>"

definition example_upstream_result :: json where
  "example_upstream_result = JObj [(''data'', JList [JObj [(''address_id'', JStr ''A1'')]])]"

definition example_question :: ai_query_request where
  "example_question = AIQueryRequest ''What is a cap rate?'' None (Some (Some ''gpt-3.5-turbo''))"

definition expired_claims :: claims where
  "expired_claims = \<lparr>tok_user_id = 1, tok_email = ''alice@example.com'', tok_role = ''admin'',
                       tok_exp = 500\<rparr>"

definition env_at :: "int \<Rightarrow> env" where
  "env_at t = example_env\<lparr>now := t\<rparr>"

text \<open>A log of three rows, the second by a user id that is in no row of \<open>users\<close>, and
  the listing of it.\<close>

definition logged_world :: world where
  "logged_world =
     \<lparr>users = [alice, bob],
      activity_log =
        [\<lparr>a_id = 1, a_user_id = Some 1, a_action = ''login'',
          a_endpoint = Some ''/api/v1/auth/login'', a_details = None,
          a_ip_address = Some ''10.0.0.1'', a_created_at = 100\<rparr>,
         \<lparr>a_id = 2, a_user_id = Some 9, a_action = ''skip_trace'',
          a_endpoint = Some ''/api/v1/skip-trace'', a_details = Some ''1 Main St'',
          a_ip_address = Some ''10.0.0.9'', a_created_at = 200\<rparr>,
         \<lparr>a_id = 3, a_user_id = Some 1, a_action = ''ai_query'',
          a_endpoint = Some ''/api/v1/ai/query'', a_details = Some ''cap rate?'',
          a_ip_address = Some ''10.0.0.1'', a_created_at = 300\<rparr>],
      upstream_calls = []\<rparr>"

definition logged_once :: world where
  "logged_once = logged_world\<lparr>activity_log := take 1 (activity_log logged_world)\<rparr>"

definition logged_twice :: world where
  "logged_twice = logged_world\<lparr>activity_log := take 2 (activity_log logged_world)\<rparr>"

definition logged_entries :: "activity_entry list" where
  "logged_entries =
     [\<lparr>e_id = 3, e_user_name = Some ''Alice'', e_user_email = Some ''alice@example.com'',
       e_action = ''ai_query'', e_endpoint = Some ''/api/v1/ai/query'',
       e_details = Some ''cap rate?'', e_ip = Some ''10.0.0.1'', e_timestamp = 300\<rparr>,
      \<lparr>e_id = 2, e_user_name = None, e_user_email = None,
       e_action = ''skip_trace'', e_endpoint = Some ''/api/v1/skip-trace'',
       e_details = Some ''1 Main St'', e_ip = Some ''10.0.0.9'', e_timestamp = 200\<rparr>,
      \<lparr>e_id = 1, e_user_name = Some ''Alice'', e_user_email = Some ''alice@example.com'',
       e_action = ''login'', e_endpoint = Some ''/api/v1/auth/login'',
       e_details = None, e_ip = Some ''10.0.0.1'', e_timestamp = 100\<rparr>]"

text \<open>A password with a NUL byte, a buyer search, and a stand-in for Python's \<open>str\<close>.\<close>

definition nul_password :: string where
  "nul_password = ''pw'' @ [CHR 0x00]"

definition example_buyer_search :: buyer_search_request where
  "example_buyer_search = \<lparr>b_city = ''Dallas'', b_state = ''TX'', min_purchases = Some 2,
                            b_max_results = Some 20\<rparr>"

fun example_str :: "json \<Rightarrow> string" where
  "example_str JNull = ''None''"
| "example_str j = ''value''"

text \<open>Three rows written in the same second, and the listing of them with limit 2.\<close>

definition same_second_world :: world where
  "same_second_world =
     \<lparr>users = [alice, bob],
      activity_log =
        [\<lparr>a_id = 1, a_user_id = Some 1, a_action = ''login'',
          a_endpoint = Some ''/api/v1/auth/login'', a_details = None,
          a_ip_address = Some ''10.0.0.1'', a_created_at = 100\<rparr>,
         \<lparr>a_id = 2, a_user_id = Some 1, a_action = ''property_search'',
          a_endpoint = Some ''/api/v1/properties/search'', a_details = Some ''Austin, TX'',
          a_ip_address = Some ''10.0.0.1'', a_created_at = 100\<rparr>,
         \<lparr>a_id = 3, a_user_id = Some 1, a_action = ''ai_query'',
          a_endpoint = Some ''/api/v1/ai/query'', a_details = Some ''cap rate?'',
          a_ip_address = Some ''10.0.0.1'', a_created_at = 100\<rparr>],
      upstream_calls = []\<rparr>"

definition same_second_once :: world where
  "same_second_once = same_second_world\<lparr>activity_log := take 1 (activity_log same_second_world)\<rparr>"

definition same_second_twice :: world where
  "same_second_twice = same_second_world\<lparr>activity_log := take 2 (activity_log same_second_world)\<rparr>"

definition same_second_listing :: "activity_entry list" where
  "same_second_listing =
     [\<lparr>e_id = 1, e_user_name = Some ''Alice'', e_user_email = Some ''alice@example.com'',
       e_action = ''login'', e_endpoint = Some ''/api/v1/auth/login'',
       e_details = None, e_ip = Some ''10.0.0.1'', e_timestamp = 100\<rparr>,
      \<lparr>e_id = 2, e_user_name = Some ''Alice'', e_user_email = Some ''alice@example.com'',
       e_action = ''property_search'', e_endpoint = Some ''/api/v1/properties/search'',
       e_details = Some ''Austin, TX'', e_ip = Some ''10.0.0.1'', e_timestamp = 100\<rparr>]"

section \<open>Helper lemmas\<close>

lemma decode_token_status:
  "decode_token cfg t tok = Inl x \<Longrightarrow> status_code x = 401"
  by (cases tok) (auto simp: decode_token_def split: if_splits)

lemma require_role_rejects:
  assumes "gate_rejects allowed cfg t tok"
  shows "\<exists>x. require_role allowed cfg t tok = Inl x \<and> (status_code x = 401 \<or> status_code x = 403)"
proof (cases "decode_token cfg t tok")
  case (Inl x)
  then show ?thesis
    using decode_token_status [OF Inl] by (simp add: require_role_def get_current_user_def)
next
  case (Inr usr)
  with assms show ?thesis
    by (simp add: require_role_def get_current_user_def gate_rejects_def)
qed

section \<open>Access guard\<close>

text \<open>
  Claim C1. The role-gated operations of \<^verbatim>\<open>main.py\<close> are \<open>skip_trace\<close>, \<open>list_users\<close> and
  \<open>get_activity\<close>. For each of them: when the bearer token fails validation, or validates
  with a role outside the operation's allowed roles, the request ends with an exception
  of status 401 or 403 and the world is the one before the request, so no row was added
  to \<open>activity_log\<close> and no upstream call was made.
\<close>

theorem role_gate_rejects_before_side_effects:
  "(gate_rejects [''admin'', ''manager'', ''acquisitions''] cfg (now e) tok \<longrightarrow>
      (\<exists>x. skip_trace cfg e req ip tok w = (Inl x, w)
           \<and> (status_code x = 401 \<or> status_code x = 403)))
   \<and> (gate_rejects [''admin''] cfg (now e) tok \<longrightarrow>
      (\<exists>x. list_users cfg e tok w = (Inl x, w)
           \<and> (status_code x = 401 \<or> status_code x = 403)))
   \<and> (gate_rejects [''admin'', ''manager''] cfg (now e) tok \<longrightarrow>
      (\<exists>x. get_activity cfg e lmt tok w = (Inl x, w)
           \<and> (status_code x = 401 \<or> status_code x = 403)))"
proof (intro conjI impI)
  assume "gate_rejects [''admin'', ''manager'', ''acquisitions''] cfg (now e) tok"
  from require_role_rejects [OF this]
  show "\<exists>x. skip_trace cfg e req ip tok w = (Inl x, w)
           \<and> (status_code x = 401 \<or> status_code x = 403)"
    by (auto simp: skip_trace_def)
next
  assume "gate_rejects [''admin''] cfg (now e) tok"
  from require_role_rejects [OF this]
  show "\<exists>x. list_users cfg e tok w = (Inl x, w)
           \<and> (status_code x = 401 \<or> status_code x = 403)"
    by (auto simp: list_users_def)
next
  assume "gate_rejects [''admin'', ''manager''] cfg (now e) tok"
  from require_role_rejects [OF this]
  show "\<exists>x. get_activity cfg e lmt tok w = (Inl x, w)
           \<and> (status_code x = 401 \<or> status_code x = 403)"
    by (auto simp: get_activity_def)
qed

text \<open>A string that is no JWT, a member's token on the admin listing, an expired admin token.\<close>

theorem role_gate_rejects_before_side_effects_witness:
  "gate_rejects [''admin'', ''manager'', ''acquisitions''] example_config (now example_env)
      (NotJwt ''garbage'')
   \<and> skip_trace example_config example_env \<lparr>address = ''1 Main St''\<rparr> ''10.0.0.1''
        (NotJwt ''garbage'') example_world
      = (Inl (HTTPException 401 ''Invalid token''), example_world)
   \<and> gate_rejects [''admin''] example_config (now example_env) member_token
   \<and> list_users example_config example_env member_token example_world
      = (Inl (HTTPException 403 ''Insufficient permissions''), example_world)
   \<and> gate_rejects [''admin'', ''manager''] example_config (now example_env) stale_admin_token
   \<and> get_activity example_config example_env None stale_admin_token example_world
      = (Inl (HTTPException 401 ''Token expired''), example_world)"
  using role_gate_rejects_before_side_effects
          [where cfg = example_config and e = example_env and tok = "NotJwt ''garbage''"
             and req = "\<lparr>address = ''1 Main St''\<rparr>" and ip = "''10.0.0.1''" and w = example_world]
        role_gate_rejects_before_side_effects
          [where cfg = example_config and e = example_env and tok = member_token
             and w = example_world]
        role_gate_rejects_before_side_effects
          [where cfg = example_config and e = example_env and tok = stale_admin_token
             and lmt = None and w = example_world]
  by (simp add: gate_rejects_def decode_token_def create_token_def JWT_EXPIRY_HOURS_def
        skip_trace_def list_users_def get_activity_def require_role_def get_current_user_def
        example_config_def example_env_def member_token_def stale_admin_token_def)

text \<open>For contrast, the same request with an admin's token: two upstream calls and one
  log row.\<close>

lemma skip_trace_accepted_example:
  "fst (skip_trace example_config example_env \<lparr>address = ''1 Main St''\<rparr> ''10.0.0.1''
          admin_token example_world) = Inr example_upstream_result
   \<and> map fst (upstream_calls (snd (skip_trace example_config example_env
          \<lparr>address = ''1 Main St''\<rparr> ''10.0.0.1'' admin_token example_world)))
       = [BASE_URL @ ''/AutoComplete'', BASE_URL @ ''/SkipTrace'']
   \<and> map a_action (activity_log (snd (skip_trace example_config example_env
          \<lparr>address = ''1 Main St''\<rparr> ''10.0.0.1'' admin_token example_world)))
       = [''skip_trace'']"
  by (simp add: skip_trace_def require_role_def get_current_user_def decode_token_def
        create_token_def JWT_EXPIRY_HOURS_def RealEstateAPI_autocomplete_def
        RealEstateAPI_skip_trace_def RealEstateAPI_post_def log_activity_def
        example_upstream_result_def example_config_def example_env_def admin_token_def
        example_world_def)

section \<open>Property search filters\<close>

text \<open>
  Claim C9. A \<open>min_equity\<close> of 0 adds no filter: the filter list is the one built for
  \<open>min_equity = None\<close>, none of its entries names \<open>equity_percent\<close>, and the whole request
  (outcome, upstream call and log row) is the same as with \<open>None\<close>. Likewise for a
  \<open>min_year_built\<close> of 0 and the field \<open>year_built\<close>.
\<close>

theorem zero_minimum_is_no_filter:
  "search_filters (req\<lparr>min_equity := Some 0\<rparr>) = search_filters (req\<lparr>min_equity := None\<rparr>)
   \<and> filter (has_field ''equity_percent'') (search_filters (req\<lparr>min_equity := Some 0\<rparr>)) = []
   \<and> search_properties cfg e (req\<lparr>min_equity := Some 0\<rparr>) ip tok w
       = search_properties cfg e (req\<lparr>min_equity := None\<rparr>) ip tok w
   \<and> search_filters (req\<lparr>min_year_built := Some 0\<rparr>)
       = search_filters (req\<lparr>min_year_built := None\<rparr>)
   \<and> filter (has_field ''year_built'') (search_filters (req\<lparr>min_year_built := Some 0\<rparr>)) = []
   \<and> search_properties cfg e (req\<lparr>min_year_built := Some 0\<rparr>) ip tok w
       = search_properties cfg e (req\<lparr>min_year_built := None\<rparr>) ip tok w"
  by (simp add: search_filters_def search_properties_def has_field_def
      split: sum.splits option.splits)

section \<open>Token validation\<close>

text \<open>
  Claim C2. \<open>decode_token\<close> at any time \<open>t\<close>: a token signed with the configured secret
  whose expiry is before \<open>t\<close> fails with the expired kind (\<open>Token expired\<close>); a token
  signed with another key, or a string that is no token at all, fails with the malformed
  kind (\<open>Invalid token\<close>); a token whose expiry is before \<open>t\<close> is rejected whatever key
  signed it; every failure carries status 401, and the two kinds differ in their detail.
  The signature is checked before the expiry, so the expired kind is the outcome of a
  token that is otherwise valid.
\<close>

theorem decode_token_failures:
  "(tok_exp p < t \<longrightarrow>
      decode_token cfg t (Jwt (JWT_SECRET cfg) p) = Inl (HTTPException 401 ''Token expired''))
   \<and> (k \<noteq> JWT_SECRET cfg \<longrightarrow>
      decode_token cfg t (Jwt k p) = Inl (HTTPException 401 ''Invalid token''))
   \<and> decode_token cfg t (NotJwt s) = Inl (HTTPException 401 ''Invalid token'')
   \<and> (tok_exp p < t \<longrightarrow> (\<exists>x. decode_token cfg t (Jwt k p) = Inl x \<and> status_code x = 401))
   \<and> (\<forall>x. decode_token cfg t tok = Inl x \<longrightarrow> status_code x = 401)
   \<and> detail (HTTPException 401 ''Token expired'') \<noteq> detail (HTTPException 401 ''Invalid token'')"
  by (cases tok) (auto simp: decode_token_def)

theorem decode_token_failures_witness:
  "tok_exp expired_claims < 1000
   \<and> decode_token example_config 1000 (Jwt (JWT_SECRET example_config) expired_claims)
       = Inl (HTTPException 401 ''Token expired'')
   \<and> ''forged-key'' \<noteq> JWT_SECRET example_config
   \<and> decode_token example_config 1000 (Jwt ''forged-key'' expired_claims)
       = Inl (HTTPException 401 ''Invalid token'')
   \<and> decode_token example_config 1000 (NotJwt ''garbage'') = Inl (HTTPException 401 ''Invalid token'')
   \<and> status_code (HTTPException 401 ''Token expired'') = 401
   \<and> status_code (HTTPException 401 ''Invalid token'') = 401"
  using decode_token_failures [where p = expired_claims and t = 1000 and cfg = example_config
          and k = "''forged-key''" and s = "''garbage''"
          and tok = "Jwt ''forged-key'' expired_claims"]
  by (simp add: expired_claims_def example_config_def)

section \<open>Login\<close>

lemma find_absent_email:
  "em \<notin> u_email ` set us \<Longrightarrow> find (\<lambda>x. u_email x = em) us = None"
  by (induction us) auto

lemma find_unique_email:
  assumes "distinct (map u_email us)" "r \<in> set us"
  shows "find (\<lambda>x. u_email x = u_email r) us = Some r"
  using assms by (induction us) (auto simp: image_iff)

lemma find_snoc_new:
  "find P xs = None \<Longrightarrow> P x \<Longrightarrow> find P (xs @ [x]) = Some x"
  by (induction xs) (auto split: if_splits)

text \<open>
  Claim C3. In a table with unique emails, for every user row whose \<open>is_active\<close> is false:
  a login with that row's email and a password that verifies against its hash, the lookup
  answering, ends with status 401 (\<open>Account disabled\<close>); the world is unchanged and the
  outcome holds no token, so the rejection comes before \<open>create_token\<close>, the last-login
  update and the log row.
\<close>

theorem login_inactive_user_rejected:
  assumes "\<not> fault e SelectUserByEmail"
    and "distinct (map u_email (users w))"
    and "r \<in> set (users w)"
    and "\<not> u_is_active r"
    and "ul_email c = u_email r"
    and "bcrypt_verify (ul_password c) (u_password_hash r) = Inr True"
  shows "login cfg e c ip w = (Inl (HTTPException 401 ''Account disabled''), w)"
  using assms find_unique_email [of "users w" r]
  by (simp add: login_def)

theorem login_inactive_user_rejected_witness:
  "\<not> fault example_env SelectUserByEmail
   \<and> distinct (map u_email (users example_world))
   \<and> bob \<in> set (users example_world)
   \<and> \<not> u_is_active bob
   \<and> bcrypt_verify ''pw-bob'' (u_password_hash bob) = Inr True
   \<and> login example_config example_env \<lparr>ul_email = ''bob@example.com'', ul_password = ''pw-bob''\<rparr>
        ''10.0.0.1'' example_world
      = (Inl (HTTPException 401 ''Account disabled''), example_world)"
  using login_inactive_user_rejected
          [where e = example_env and w = example_world and r = bob and cfg = example_config
             and c = "\<lparr>ul_email = ''bob@example.com'', ul_password = ''pw-bob''\<rparr>"
             and ip = "''10.0.0.1''"]
  by (simp add: bcrypt_secret_def MAX_PASSWORD_SIZE_def
        example_env_def example_world_def alice_def bob_def)

text \<open>
  Where \<open>bcrypt.verify\<close> answers, the two rejections are the same: an email that no row
  has, and the email of a row with a password that does not verify, both end with
  status 401 and detail \<open>Invalid credentials\<close>, the world unchanged.
\<close>

lemma login_rejections_same_message:
  assumes "\<not> fault e1 SelectUserByEmail" and "\<not> fault e2 SelectUserByEmail"
    and "ul_email c1 \<notin> u_email ` set (users w1)"
    and "distinct (map u_email (users w2))"
    and "r \<in> set (users w2)"
    and "ul_email c2 = u_email r"
    and "bcrypt_verify (ul_password c2) (u_password_hash r) = Inr False"
  shows "login cfg e1 c1 ip1 w1 = (Inl (HTTPException 401 ''Invalid credentials''), w1)
       \<and> login cfg e2 c2 ip2 w2 = (Inl (HTTPException 401 ''Invalid credentials''), w2)"
  using assms find_unique_email [of "users w2" r] find_absent_email [of "ul_email c1" "users w1"]
  by (simp add: login_def)

text \<open>
  Claim C4. The claim asks that a login with an email that no row has and a login with
  the email of a row and a wrong password end the same way. \<open>login\<close> calls
  \<open>bcrypt.verify\<close> only when the email has a row, and catches nothing it raises: with a
  password that holds a NUL byte, the email of a row ends with the unhandled
  \<open>PasswordValueError\<close> (status 500) and an email of no row with status 401 and
  \<open>Invalid credentials\<close>, so the two answers tell whether the email exists.
\<close>

theorem login_nul_password_tells_email_exists:
  "login example_config example_env \<lparr>ul_email = ''alice@example.com'', ul_password = nul_password\<rparr>
     ''10.0.0.1'' example_world
     = (Inl (Unhandled ''PasswordValueError''), example_world)
   \<and> status_code (Unhandled ''PasswordValueError'') = 500
   \<and> login example_config example_env \<lparr>ul_email = ''nobody@example.com'', ul_password = nul_password\<rparr>
     ''10.0.0.1'' example_world
     = (Inl (HTTPException 401 ''Invalid credentials''), example_world)
   \<and> status_code (HTTPException 401 ''Invalid credentials'') = 401"
  by (simp add: login_def bcrypt_secret_def MAX_PASSWORD_SIZE_def nul_password_def
        example_env_def example_world_def alice_def bob_def)

text \<open>
  Claim C7, as the code has it. The code does not make the last-login update
  best-effort: here a correct login of an active user ends with the unhandled
  \<open>sqlite3.Error\<close> (status 500) and no token when the \<open>UPDATE\<close> fails, and with a token when
  it succeeds.
\<close>

theorem last_login_failure_blocks_login:
  "fst (login example_config touch_down_env example_login ''10.0.0.1'' example_world)
     = Inl sqlite3_Error
   \<and> status_code sqlite3_Error = 500
   \<and> fst (login example_config example_env example_login ''10.0.0.1'' example_world)
     = Inr \<lparr>access_token = create_token example_config 1000 1 ''alice@example.com'' ''admin'',
            token_type = ''bearer'',
            user = \<lparr>ur_id = 1, ur_email = ''alice@example.com'', ur_name = ''Alice'',
                     ur_role = ''admin'', ur_is_active = True\<rparr>\<rparr>"
  by (simp add: login_def log_activity_def sqlite3_Error_def example_login_def
        bcrypt_secret_def MAX_PASSWORD_SIZE_def
        example_config_def example_env_def touch_down_env_def example_world_def alice_def bob_def)

text \<open>
  Claim C7, amended. For every successful credential check of an active user, the
  last-login update runs before the token is created and is not caught: when the
  \<open>UPDATE\<close> fails, login ends with the unhandled \<open>sqlite3.Error\<close>, returns no token and
  changes nothing; when it succeeds and the log write succeeds, login returns the token
  and the row's \<open>last_login\<close> is the time of the request.
\<close>

theorem last_login_update_precedes_token:
  assumes "\<not> fault e SelectUserByEmail"
    and "distinct (map u_email (users w))"
    and "r \<in> set (users w)"
    and "u_is_active r"
    and "ul_email c = u_email r"
    and "bcrypt_verify (ul_password c) (u_password_hash r) = Inr True"
  shows "(fault e UpdateLastLogin \<longrightarrow> login cfg e c ip w = (Inl sqlite3_Error, w))
       \<and> (\<not> fault e UpdateLastLogin \<and> \<not> fault e InsertActivity \<longrightarrow>
            (\<exists>t w'. login cfg e c ip w = (Inr t, w')
               \<and> access_token t = create_token cfg (now e) (u_id r) (u_email r) (u_role r)
               \<and> users w' = map (\<lambda>x. if u_id x = u_id r
                                          then x\<lparr>u_last_login := Some (now e)\<rparr> else x) (users w)))"
  using assms find_unique_email [of "users w" r]
  by (simp add: login_def log_activity_def Let_def)

theorem last_login_update_precedes_token_witness:
  "\<not> fault touch_down_env SelectUserByEmail
   \<and> distinct (map u_email (users example_world))
   \<and> alice \<in> set (users example_world)
   \<and> u_is_active alice
   \<and> ul_email example_login = u_email alice
   \<and> bcrypt_verify (ul_password example_login) (u_password_hash alice) = Inr True
   \<and> fault touch_down_env UpdateLastLogin
   \<and> login example_config touch_down_env example_login ''10.0.0.1'' example_world
       = (Inl sqlite3_Error, example_world)
   \<and> \<not> fault example_env UpdateLastLogin \<and> \<not> fault example_env InsertActivity
   \<and> (\<exists>t w'. login example_config example_env example_login ''10.0.0.1'' example_world
                 = (Inr t, w')
        \<and> access_token t = create_token example_config (now example_env) (u_id alice)
                              (u_email alice) (u_role alice)
        \<and> users w' = map (\<lambda>x. if u_id x = u_id alice
                                   then x\<lparr>u_last_login := Some (now example_env)\<rparr> else x)
                          (users example_world))"
  using last_login_update_precedes_token
          [where e = touch_down_env and w = example_world and r = alice and c = example_login
             and cfg = example_config and ip = "''10.0.0.1''"]
        last_login_update_precedes_token
          [where e = example_env and w = example_world and r = alice and c = example_login
             and cfg = example_config and ip = "''10.0.0.1''"]
  by (simp add: example_login_def bcrypt_secret_def MAX_PASSWORD_SIZE_def
        example_env_def touch_down_env_def example_world_def alice_def bob_def)

section \<open>Register, then login\<close>

text \<open>
  Claim C5. For every \<open>(email, password, name, role)\<close> whose email no row has and whose
  password bcrypt accepts, with the storage answering every statement: \<open>register\<close> returns a token, \<open>login\<close> with the same
  email and password on the resulting world returns a token, both tokens decode at
  their time of issue, and the two decoded \<open>user_id\<close> claims are equal (and are the id
  the registration answered with).
\<close>

theorem register_then_login_same_user_id:
  assumes "uc_email u \<notin> u_email ` set (users w)"
    and "\<forall>s. \<not> fault e1 s" and "\<forall>s. \<not> fault e2 s"
    and "valid_password (uc_password u)"
  shows "\<exists>t1 w1 t2 w2 c1 c2.
      register cfg e1 u ip1 w = (Inr t1, w1)
    \<and> login cfg e2 \<lparr>ul_email = uc_email u, ul_password = uc_password u\<rparr> ip2 w1 = (Inr t2, w2)
    \<and> decode_token cfg (now e1) (access_token t1) = Inr c1
    \<and> decode_token cfg (now e2) (access_token t2) = Inr c2
    \<and> tok_user_id c1 = tok_user_id c2
    \<and> tok_user_id c1 = ur_id (user t1)"
proof -
  let ?uid = "next_id (map u_id (users w))"
  let ?row = "\<lparr>u_id = ?uid, u_email = uc_email u,
                u_password_hash = Bcrypt (salt e1) (take 72 (uc_password u)), u_name = uc_name u,
                u_role = uc_role u, u_is_active = True,
                u_created_at = now e1, u_last_login = None\<rparr>"
  have none: "find (\<lambda>r. u_email r = uc_email u) (users w) = None"
    using assms(1) by (rule find_absent_email)
  have secret: "bcrypt_secret (uc_password u) = Inr (take 72 (uc_password u))"
    using assms(4) by (simp add: valid_password_def bcrypt_secret_def)
  obtain t1 w1 where reg: "register cfg e1 u ip1 w = (Inr t1, w1)"
    and tok1: "access_token t1 = create_token cfg (now e1) ?uid (uc_email u) (uc_role u)"
    and id1: "ur_id (user t1) = ?uid"
    and us1: "users w1 = users w @ [?row]"
    using none assms(2) secret by (simp add: register_def log_activity_def Let_def)
  have found: "find (\<lambda>r. u_email r = uc_email u) (users w1) = Some ?row"
    unfolding us1 using none by (intro find_snoc_new) simp_all
  obtain t2 w2 where
    lg: "login cfg e2 \<lparr>ul_email = uc_email u, ul_password = uc_password u\<rparr> ip2 w1 = (Inr t2, w2)"
    and tok2: "access_token t2 = create_token cfg (now e2) ?uid (uc_email u) (uc_role u)"
    using found assms(3) secret by (simp add: login_def log_activity_def Let_def)
  have d1: "decode_token cfg (now e1) (access_token t1)
      = Inr \<lparr>tok_user_id = ?uid, tok_email = uc_email u, tok_role = uc_role u,
              tok_exp = now e1 + JWT_EXPIRY_HOURS * 3600\<rparr>"
    by (simp add: tok1 create_token_def decode_token_def JWT_EXPIRY_HOURS_def)
  have d2: "decode_token cfg (now e2) (access_token t2)
      = Inr \<lparr>tok_user_id = ?uid, tok_email = uc_email u, tok_role = uc_role u,
              tok_exp = now e2 + JWT_EXPIRY_HOURS * 3600\<rparr>"
    by (simp add: tok2 create_token_def decode_token_def JWT_EXPIRY_HOURS_def)
  show ?thesis
    using reg lg d1 d2 id1 by simp
qed

theorem register_then_login_same_user_id_witness:
  "uc_email carol \<notin> u_email ` set (users example_world)
   \<and> (\<forall>s. \<not> fault example_env s)
   \<and> valid_password (uc_password carol)
   \<and> (\<exists>t1 w1 t2 w2 c1 c2.
        register example_config example_env carol ''10.0.0.1'' example_world = (Inr t1, w1)
      \<and> login example_config example_env
           \<lparr>ul_email = uc_email carol, ul_password = uc_password carol\<rparr> ''10.0.0.2'' w1
         = (Inr t2, w2)
      \<and> decode_token example_config (now example_env) (access_token t1) = Inr c1
      \<and> decode_token example_config (now example_env) (access_token t2) = Inr c2
      \<and> tok_user_id c1 = tok_user_id c2
      \<and> tok_user_id c1 = ur_id (user t1))"
  using register_then_login_same_user_id
          [where u = carol and w = example_world and ?e1.0 = example_env and ?e2.0 = example_env
             and cfg = example_config and ?ip1.0 = "''10.0.0.1''" and ?ip2.0 = "''10.0.0.2''"]
  by (simp add: valid_password_def MAX_PASSWORD_SIZE_def
        example_env_def example_world_def alice_def bob_def carol_def)

section \<open>Audit log writes\<close>

lemma audit_up_simps:
  "now (audit_up e) = now e" "salt (audit_up e) = salt e" "year_ago (audit_up e) = year_ago e"
  "re_http (audit_up e) = re_http e" "openai_http (audit_up e) = openai_http e"
  "fault (audit_up e) s = (s \<noteq> InsertActivity \<and> fault e s)"
  by (simp_all add: audit_up_def)

lemma log_activity_fault:
  "fault e InsertActivity \<Longrightarrow> log_activity e uid action ep det ipo w = Inl sqlite3_Error"
  by (simp add: log_activity_def)

lemma RealEstateAPI_post_audit_up:
  "RealEstateAPI_post (audit_up e) endpoint payload w = RealEstateAPI_post e endpoint payload w"
  by (simp add: RealEstateAPI_post_def audit_up_simps)

lemmas RealEstateAPI_audit_up =
  RealEstateAPI_autocomplete_def RealEstateAPI_property_search_def
  RealEstateAPI_property_detail_def RealEstateAPI_property_comps_def
  RealEstateAPI_skip_trace_def RealEstateAPI_post_audit_up

lemma query_openai_audit_up:
  "query_openai cfg (audit_up e) p c w = query_openai cfg e p c w"
  by (simp add: query_openai_def audit_up_simps)

text \<open>The last step of every logged handler.\<close>

lemma log_step:
  assumes "fault e InsertActivity"
  shows "fst (case log_activity e uid action ep det ipo w of
                Inl x \<Rightarrow> (Inl x, w) | Inr w' \<Rightarrow> (Inr r, w')) = Inl sqlite3_Error"
    and "fst (case log_activity (audit_up e) uid action ep det ipo w of
                Inl x \<Rightarrow> (Inl x, w) | Inr w' \<Rightarrow> (Inr r, w')) = Inr r"
  using assms by (simp_all add: log_activity_def audit_up_simps)

lemma register_audit_failed:
  assumes "fault e InsertActivity"
  shows "fst (register cfg e u ip w) = audit_failed (fst (register cfg (audit_up e) u ip w))"
  by (simp add: register_def Let_def audit_up_simps log_step [OF assms]
      split: sum.splits option.splits)

lemma login_audit_failed:
  assumes "fault e InsertActivity"
  shows "fst (login cfg e c ip w) = audit_failed (fst (login cfg (audit_up e) c ip w))"
  by (simp add: login_def Let_def audit_up_simps log_step [OF assms]
      split: sum.splits option.splits)

lemma search_properties_audit_failed:
  assumes "fault e InsertActivity"
  shows "fst (search_properties cfg e req ip tok w)
           = audit_failed (fst (search_properties cfg (audit_up e) req ip tok w))"
  by (simp add: search_properties_def audit_up_simps RealEstateAPI_audit_up log_step [OF assms]
      split: sum.splits prod.splits)

lemma lookup_property_audit_failed:
  assumes "fault e InsertActivity"
  shows "fst (lookup_property cfg e req ip tok w)
           = audit_failed (fst (lookup_property cfg (audit_up e) req ip tok w))"
  by (simp add: lookup_property_def audit_up_simps RealEstateAPI_audit_up log_step [OF assms]
      split: sum.splits prod.splits)

lemma get_comps_audit_failed:
  assumes "fault e InsertActivity"
  shows "fst (get_comps cfg e req ip tok w)
           = audit_failed (fst (get_comps cfg (audit_up e) req ip tok w))"
  by (simp add: get_comps_def audit_up_simps RealEstateAPI_audit_up log_step [OF assms]
      split: sum.splits prod.splits)

lemma skip_trace_audit_failed:
  assumes "fault e InsertActivity"
  shows "fst (skip_trace cfg e req ip tok w)
           = audit_failed (fst (skip_trace cfg (audit_up e) req ip tok w))"
  by (simp add: skip_trace_def audit_up_simps RealEstateAPI_audit_up log_step [OF assms]
      split: sum.splits prod.splits)

lemma search_buyers_audit_failed:
  assumes "fault e InsertActivity"
  shows "fst (search_buyers py_str cfg e req ip tok w)
           = audit_failed (fst (search_buyers py_str cfg (audit_up e) req ip tok w))"
  by (simp add: search_buyers_def buyer_filters_def audit_up_simps RealEstateAPI_audit_up
        log_step [OF assms] split: sum.splits prod.splits)

lemma ai_query_audit_failed:
  assumes "fault e InsertActivity"
  shows "fst (ai_query cfg e req ip tok w)
           = audit_failed (fst (ai_query cfg (audit_up e) req ip tok w))"
  by (simp add: ai_query_def Let_def audit_up_simps query_openai_audit_up log_step [OF assms]
      split: sum.splits prod.splits)

text \<open>
  Claim C6, as the code has it. A failure of the log write is not swallowed: the same
  property search by the same admin ends with the unhandled \<open>sqlite3.Error\<close> (status 500)
  when the \<open>INSERT\<close> into \<open>activity_log\<close> fails, and with the upstream result when it
  succeeds, so the two outcomes differ.
\<close>

theorem audit_failure_changes_outcome:
  "fault audit_down_env InsertActivity
   \<and> fst (search_properties example_config audit_down_env example_search ''10.0.0.1''
            admin_token example_world) = Inl sqlite3_Error
   \<and> status_code sqlite3_Error = 500
   \<and> fst (search_properties example_config example_env example_search ''10.0.0.1''
            admin_token example_world) = Inr example_upstream_result
   \<and> fst (search_properties example_config audit_down_env example_search ''10.0.0.1''
            admin_token example_world)
      \<noteq> fst (search_properties example_config example_env example_search ''10.0.0.1''
            admin_token example_world)"
  by (simp add: search_properties_def get_current_user_def decode_token_def create_token_def
        JWT_EXPIRY_HOURS_def RealEstateAPI_property_search_def RealEstateAPI_post_def
        log_activity_def sqlite3_Error_def example_upstream_result_def
        example_config_def example_env_def audit_down_env_def admin_token_def)

text \<open>
  Claim C6, amended. For every logged operation (\<open>register\<close>, \<open>login\<close>,
  \<open>search_properties\<close>, \<open>lookup_property\<close>, \<open>get_comps\<close>, \<open>skip_trace\<close>,
  \<open>search_buyers\<close>, \<open>ai_query\<close>), a failure of the log write is raised by \<open>log_activity\<close>
  as the unhandled \<open>sqlite3.Error\<close> (status 500) and caught by no handler. The outcome
  of the request is then fixed by its outcome in the same environment with the write
  succeeding (\<open>audit_up\<close>): where that is a result, the request ends with the
  \<open>sqlite3.Error\<close> instead; where that is an error, raised before the write, it ends
  with the same error.
\<close>

theorem audit_write_failure_propagates:
  "fault e InsertActivity \<longrightarrow>
       log_activity e uid action ep det ipo w = Inl sqlite3_Error
     \<and> status_code sqlite3_Error = 500
     \<and> fst (register cfg e u ip w) = audit_failed (fst (register cfg (audit_up e) u ip w))
     \<and> fst (login cfg e c ip w) = audit_failed (fst (login cfg (audit_up e) c ip w))
     \<and> fst (search_properties cfg e req ip tok w)
         = audit_failed (fst (search_properties cfg (audit_up e) req ip tok w))
     \<and> fst (lookup_property cfg e areq ip tok w)
         = audit_failed (fst (lookup_property cfg (audit_up e) areq ip tok w))
     \<and> fst (get_comps cfg e areq ip tok w)
         = audit_failed (fst (get_comps cfg (audit_up e) areq ip tok w))
     \<and> fst (skip_trace cfg e areq ip tok w)
         = audit_failed (fst (skip_trace cfg (audit_up e) areq ip tok w))
     \<and> fst (search_buyers py_str cfg e breq ip tok w)
         = audit_failed (fst (search_buyers py_str cfg (audit_up e) breq ip tok w))
     \<and> fst (ai_query cfg e qreq ip tok w)
         = audit_failed (fst (ai_query cfg (audit_up e) qreq ip tok w))"
proof (intro impI conjI)
  assume f: "fault e InsertActivity"
  show "log_activity e uid action ep det ipo w = Inl sqlite3_Error"
    by (rule log_activity_fault [OF f])
  show "status_code sqlite3_Error = 500"
    by (simp add: sqlite3_Error_def)
  show "fst (register cfg e u ip w) = audit_failed (fst (register cfg (audit_up e) u ip w))"
    by (rule register_audit_failed [OF f])
  show "fst (login cfg e c ip w) = audit_failed (fst (login cfg (audit_up e) c ip w))"
    by (rule login_audit_failed [OF f])
  show "fst (search_properties cfg e req ip tok w)
         = audit_failed (fst (search_properties cfg (audit_up e) req ip tok w))"
    by (rule search_properties_audit_failed [OF f])
  show "fst (lookup_property cfg e areq ip tok w)
         = audit_failed (fst (lookup_property cfg (audit_up e) areq ip tok w))"
    by (rule lookup_property_audit_failed [OF f])
  show "fst (get_comps cfg e areq ip tok w)
         = audit_failed (fst (get_comps cfg (audit_up e) areq ip tok w))"
    by (rule get_comps_audit_failed [OF f])
  show "fst (skip_trace cfg e areq ip tok w)
         = audit_failed (fst (skip_trace cfg (audit_up e) areq ip tok w))"
    by (rule skip_trace_audit_failed [OF f])
  show "fst (search_buyers py_str cfg e breq ip tok w)
         = audit_failed (fst (search_buyers py_str cfg (audit_up e) breq ip tok w))"
    by (rule search_buyers_audit_failed [OF f])
  show "fst (ai_query cfg e qreq ip tok w)
         = audit_failed (fst (ai_query cfg (audit_up e) qreq ip tok w))"
    by (rule ai_query_audit_failed [OF f])
qed

text \<open>Each handler at a request that succeeds when the write does: the result with
  \<open>audit_up\<close>, the \<open>sqlite3.Error\<close> without.\<close>

theorem audit_write_failure_propagates_witness:
  "fault audit_down_env InsertActivity
   \<and> log_activity audit_down_env 1 ''login'' None None None example_world = Inl sqlite3_Error
   \<and> fst (register example_config audit_down_env carol ''10.0.0.1'' example_world)
       = Inl sqlite3_Error
   \<and> fst (login example_config audit_down_env example_login ''10.0.0.1'' example_world)
       = Inl sqlite3_Error
   \<and> fst (search_properties example_config audit_down_env example_search ''10.0.0.1''
            admin_token example_world) = Inl sqlite3_Error
   \<and> fst (search_properties example_config (audit_up audit_down_env) example_search ''10.0.0.1''
            admin_token example_world) = Inr example_upstream_result
   \<and> fst (lookup_property example_config audit_down_env \<lparr>address = ''1 Main St''\<rparr> ''10.0.0.1''
            admin_token example_world) = Inl sqlite3_Error
   \<and> fst (get_comps example_config audit_down_env \<lparr>address = ''1 Main St''\<rparr> ''10.0.0.1''
            admin_token example_world) = Inl sqlite3_Error
   \<and> fst (skip_trace example_config audit_down_env \<lparr>address = ''1 Main St''\<rparr> ''10.0.0.1''
            admin_token example_world) = Inl sqlite3_Error
   \<and> fst (skip_trace example_config (audit_up audit_down_env) \<lparr>address = ''1 Main St''\<rparr>
            ''10.0.0.1'' admin_token example_world) = Inr example_upstream_result
   \<and> fst (search_buyers example_str example_config audit_down_env example_buyer_search
            ''10.0.0.1'' admin_token example_world) = Inl sqlite3_Error
   \<and> fst (search_buyers example_str example_config (audit_up audit_down_env)
            example_buyer_search ''10.0.0.1'' admin_token example_world)
       = Inr (JObj [(''buyers'', JList [])])
   \<and> fst (ai_query example_config audit_down_env example_question ''10.0.0.1'' admin_token
            example_world) = Inl sqlite3_Error"
  using audit_write_failure_propagates
          [where e = audit_down_env and cfg = example_config and tok = admin_token
             and req = example_search and ip = "''10.0.0.1''" and w = example_world
             and c = example_login and u = carol and areq = "\<lparr>address = ''1 Main St''\<rparr>"
             and breq = example_buyer_search and py_str = example_str
             and qreq = example_question
             and uid = 1 and action = "''login''" and ep = None and det = None and ipo = None]
  by (simp add: register_def login_def search_properties_def lookup_property_def get_comps_def
        skip_trace_def search_buyers_def ai_query_def query_openai_def log_activity_def
        get_current_user_def require_role_def decode_token_def create_token_def
        JWT_EXPIRY_HOURS_def bcrypt_secret_def MAX_PASSWORD_SIZE_def
        RealEstateAPI_autocomplete_def RealEstateAPI_property_search_def
        RealEstateAPI_property_detail_def RealEstateAPI_property_comps_def
        RealEstateAPI_skip_trace_def RealEstateAPI_post_def
        buyer_filters_def portfolio_buyers_def owner_name_of_def
        openai_content_def openai_payload_def openai_messages_def ai_query_context_def
        audit_up_def sqlite3_Error_def example_upstream_result_def
        example_buyer_search_def example_question_def AIQueryRequest_def
        example_login_def example_search_def carol_def
        example_config_def example_env_def audit_down_env_def admin_token_def
        example_world_def alice_def bob_def)

section \<open>Activity listing\<close>

lemma length_sql_limit: "0 \<le> n \<Longrightarrow> int (length (sql_limit n xs)) \<le> n"
  by (simp add: sql_limit_def)

lemma newest_first_sort_key:
  "newest_first (sort_key (\<lambda>r. - e_timestamp r) xs)"
proof -
  have "sorted (map (\<lambda>r. - e_timestamp r) (sort_key (\<lambda>r. - e_timestamp r) xs))"
    by (rule sorted_sort_key)
  then show ?thesis
    by (simp add: newest_first_def sorted_map)
qed

lemma newest_first_sql_limit:
  "newest_first xs \<Longrightarrow> newest_first (sql_limit n xs)"
  by (simp add: newest_first_def sql_limit_def)

lemma select_activity_newest_first: "newest_first (select_activity w n)"
  unfolding select_activity_def
  by (intro newest_first_sql_limit newest_first_sort_key)

lemma select_activity_length: "0 \<le> n \<Longrightarrow> int (length (select_activity w n)) \<le> n"
  unfolding select_activity_def by (rule length_sql_limit)

lemma select_activity_prefix:
  "0 \<le> n \<Longrightarrow> select_activity w n = take (nat n) (select_activity w (- 1))"
  by (simp add: select_activity_def sql_limit_def)

lemma select_activity_negative:
  "n < 0 \<Longrightarrow> select_activity w n = select_activity w (- 1)"
  by (simp add: select_activity_def sql_limit_def)

lemma left_join_users_missing:
  assumes "\<forall>u\<in>set us. a_user_id a \<noteq> Some (u_id u)"
  shows "left_join_users us a = [activity_entry_of a None None]"
proof -
  from assms have "filter (\<lambda>u. a_user_id a = Some (u_id u)) us = []"
    by (simp add: filter_empty_conv)
  then show ?thesis by (simp add: left_join_users_def)
qed

lemma filter_unique_id:
  "distinct (map u_id us) \<Longrightarrow>
     filter (\<lambda>u. i = u_id u) us
       = (case find (\<lambda>u. u_id u = i) us of None \<Rightarrow> [] | Some u \<Rightarrow> [u])"
proof (induction us)
  case Nil
  then show ?case by simp
next
  case (Cons x us)
  show ?case
  proof (cases "u_id x = i")
    case True
    with Cons.prems have "\<forall>u\<in>set us. u_id u \<noteq> i" by (auto simp: image_iff)
    then have "filter (\<lambda>u. i = u_id u) us = []" by (auto simp: filter_empty_conv)
    with True show ?thesis by simp
  next
    case False
    with Cons show ?thesis by auto
  qed
qed

lemma left_join_users_unique:
  assumes "distinct (map u_id us)"
  shows "left_join_users us a = [joined_entry us a]"
proof (cases "a_user_id a")
  case None
  then show ?thesis
    by (simp add: left_join_users_def joined_entry_def actor_of_def)
next
  case (Some i)
  show ?thesis
    using filter_unique_id [OF assms, of i] Some
    by (simp add: left_join_users_def joined_entry_def actor_of_def split: option.splits)
qed

lemma join_all_unique:
  assumes "distinct (map u_id us)"
  shows "concat (map (left_join_users us) rows) = map (joined_entry us) rows"
  by (induction rows) (simp_all add: left_join_users_unique [OF assms])

lemma insort_past_newer:
  "\<forall>x\<in>set xs. f a < f x \<Longrightarrow>
     foldr (insort_key f) xs (a # ys) = a # foldr (insort_key f) xs ys"
proof (induction xs)
  case Nil
  then show ?case by simp
next
  case (Cons x xs)
  then have "\<not> f x \<le> f a" by (simp add: not_le)
  with Cons show ?case by simp
qed

lemma sort_key_three_newest:
  assumes "f a3 < f a2" "f a2 < f a1" "\<forall>x\<in>set xs. f a1 < f x"
  shows "sort_key f (xs @ [a1, a2, a3]) = a3 # a2 # a1 # sort_key f xs"
proof -
  have n32: "\<not> f a2 \<le> f a3" and n21: "\<not> f a1 \<le> f a2"
    using assms(1,2) by (simp_all add: not_le)
  have n31: "\<not> f a1 \<le> f a3"
    using less_trans [OF assms(1,2)] by (simp add: not_le)
  have three: "foldr (insort_key f) [a1, a2, a3] [] = [a3, a2, a1]"
    by (simp add: n32 n21 n31)
  have p3: "\<forall>x\<in>set xs. f a3 < f x" and p2: "\<forall>x\<in>set xs. f a2 < f x"
    using assms by (auto intro: less_trans)
  have "sort_key f (xs @ [a1, a2, a3]) = foldr (insort_key f) xs [a3, a2, a1]"
    unfolding sort_key_def foldr_append three ..
  also have "\<dots> = a3 # foldr (insort_key f) xs [a2, a1]"
    by (rule insort_past_newer [OF p3])
  also have "\<dots> = a3 # a2 # foldr (insort_key f) xs [a1]"
    by (simp only: insort_past_newer [OF p2])
  also have "\<dots> = a3 # a2 # a1 # foldr (insort_key f) xs []"
    by (simp only: insort_past_newer [OF assms(3)])
  finally show ?thesis by (simp add: sort_key_def)
qed

lemma log_activity_appends:
  assumes "log_activity e uid action ep det ipo w = Inr w'"
  shows "\<exists>a. activity_log w' = activity_log w @ [a] \<and> users w' = users w
            \<and> a_action a = action \<and> a_details a = det \<and> a_created_at a = now e"
  using assms by (auto simp: log_activity_def split: if_splits)

lemma three_records_listing:
  assumes d: "distinct (map u_id (users w))"
    and old: "\<forall>a\<in>set (activity_log w). a_created_at a < now e1"
    and t12: "now e1 < now e2" and t23: "now e2 < now e3"
    and l1: "log_activity e1 u1 act1 ep1 det1 ip1 w = Inr w1"
    and l2: "log_activity e2 u2 act2 ep2 det2 ip2 w1 = Inr w2"
    and l3: "log_activity e3 u3 act3 ep3 det3 ip3 w2 = Inr w3"
  shows "map (\<lambda>r. (e_action r, e_details r, e_timestamp r)) (select_activity w3 2)
           = [(act3, det3, now e3), (act2, det2, now e2)]"
proof -
  from log_activity_appends [OF l1] obtain a1 where
    a1: "activity_log w1 = activity_log w @ [a1]" "users w1 = users w"
        "a_created_at a1 = now e1" by blast
  from log_activity_appends [OF l2] obtain a2 where
    a2: "activity_log w2 = activity_log w1 @ [a2]" "users w2 = users w1"
        "a_action a2 = act2" "a_details a2 = det2" "a_created_at a2 = now e2" by blast
  from log_activity_appends [OF l3] obtain a3 where
    a3: "activity_log w3 = activity_log w2 @ [a3]" "users w3 = users w2"
        "a_action a3 = act3" "a_details a3 = det3" "a_created_at a3 = now e3" by blast
  let ?us = "users w"
  let ?j = "joined_entry ?us"
  let ?f = "\<lambda>r. - e_timestamp r"
  have ts: "\<And>a. e_timestamp (?j a) = a_created_at a"
    by (simp add: joined_entry_def activity_entry_of_def)
  have log3: "activity_log w3 = activity_log w @ [a1, a2, a3]" and us3: "users w3 = ?us"
    using a1 a2 a3 by simp_all
  have joined: "concat (map (left_join_users (users w3)) (activity_log w3))
                  = map ?j (activity_log w) @ [?j a1, ?j a2, ?j a3]"
    unfolding us3 join_all_unique [OF d] log3 by simp
  have sorted3: "sort_key ?f (map ?j (activity_log w) @ [?j a1, ?j a2, ?j a3])
                   = ?j a3 # ?j a2 # ?j a1 # sort_key ?f (map ?j (activity_log w))"
    by (rule sort_key_three_newest) (use old t12 t23 a1 a2 a3 in \<open>simp_all add: ts\<close>)
  have "select_activity w3 2 = [?j a3, ?j a2]"
    unfolding select_activity_def joined sorted3 by (simp add: sql_limit_def)
  then show ?thesis
    using a2 a3 by (simp add: joined_entry_def activity_entry_of_def)
qed

lemma newest_first_distinct_strict:
  assumes "newest_first xs" "distinct (map e_timestamp xs)"
  shows "strictly_newest_first xs"
proof -
  let ?f = "\<lambda>r. - e_timestamp r"
  have "sorted (map ?f xs)"
    using assms(1) by (simp add: newest_first_def sorted_map)
  moreover have "distinct (map ?f xs)"
    using assms(2) by (simp add: distinct_map inj_on_def)
  ultimately have "sorted_wrt (<) (map ?f xs)"
    by (simp add: strict_sorted_iff)
  then show ?thesis
    by (simp add: strictly_newest_first_def sorted_wrt_map)
qed

lemma joined_entry_timestamp: "e_timestamp (joined_entry us a) = a_created_at a"
  by (simp add: joined_entry_def activity_entry_of_def)

lemma distinct_map_sort_key:
  "distinct (map f (sort_key g xs)) = distinct (map f xs)"
  by (simp add: distinct_map)

lemma select_activity_strict:
  assumes "distinct (map u_id (users w))" "distinct (map a_created_at (activity_log w))"
  shows "strictly_newest_first (select_activity w n)"
proof -
  let ?all = "sort_key (\<lambda>r. - e_timestamp r) (map (joined_entry (users w)) (activity_log w))"
  have "distinct (map e_timestamp (map (joined_entry (users w)) (activity_log w)))"
    using assms(2) by (simp add: comp_def joined_entry_timestamp)
  then have "distinct (map e_timestamp ?all)"
    by (simp only: distinct_map_sort_key)
  then have d: "distinct (map e_timestamp (sql_limit n ?all))"
    by (simp add: sql_limit_def take_map [symmetric])
  have "select_activity w n = sql_limit n ?all"
    by (simp add: select_activity_def join_all_unique [OF assms(1)])
  with d select_activity_newest_first [of w n] show ?thesis
    by (simp add: newest_first_distinct_strict)
qed

lemma select_activity_set:
  "set (select_activity w (- 1)) = (\<Union>a\<in>set (activity_log w). set (left_join_users (users w) a))"
  by (simp add: select_activity_def sql_limit_def)

lemma select_activity_missing_actor:
  assumes "a \<in> set (activity_log w)" "a_user_id a \<notin> Some ` u_id ` set (users w)"
  shows "activity_entry_of a None None \<in> set (select_activity w (- 1))"
proof -
  have "\<forall>u\<in>set (users w). a_user_id a \<noteq> Some (u_id u)" using assms(2) by auto
  from left_join_users_missing [OF this] assms(1) show ?thesis
    unfolding select_activity_set by force
qed

lemma select_activity_known_actor:
  assumes "a \<in> set (activity_log w)" "u \<in> set (users w)" "a_user_id a = Some (u_id u)"
  shows "activity_entry_of a (Some (u_name u)) (Some (u_email u)) \<in> set (select_activity w (- 1))"
proof -
  let ?ms = "filter (\<lambda>u. a_user_id a = Some (u_id u)) (users w)"
  let ?g = "\<lambda>u. activity_entry_of a (Some (u_name u)) (Some (u_email u))"
  have mem: "u \<in> set ?ms"
    using assms(2,3) by simp
  have "?ms \<noteq> []"
  proof
    assume "?ms = []"
    with mem show False by (simp only: set_simps empty_iff)
  qed
  then have "left_join_users (users w) a = map ?g ?ms"
    by (cases ?ms) (simp_all add: left_join_users_def)
  with mem have "?g u \<in> set (left_join_users (users w) a)"
    by (simp del: set_filter)
  with assms(1) show ?thesis unfolding select_activity_set by blast
qed

lemma get_activity_accepted:
  assumes "\<not> gate_rejects [''admin'', ''manager''] cfg (now e) tok" "\<not> fault e SelectActivity"
    and "sqlite_int (case lmt of None \<Rightarrow> 100 | Some n \<Rightarrow> n)"
  shows "get_activity cfg e lmt tok w
           = (Inr (select_activity w (case lmt of None \<Rightarrow> 100 | Some n \<Rightarrow> n)), w)"
proof (cases "decode_token cfg (now e) tok")
  case (Inl x)
  with assms(1) show ?thesis by (simp add: gate_rejects_def)
next
  case (Inr usr)
  with assms show ?thesis
    by (simp add: get_activity_def require_role_def get_current_user_def gate_rejects_def)
qed

lemma get_activity_overflow:
  assumes "\<not> gate_rejects [''admin'', ''manager''] cfg (now e) tok"
    and "\<not> sqlite_int (case lmt of None \<Rightarrow> 100 | Some n \<Rightarrow> n)"
  shows "get_activity cfg e lmt tok w = (Inl (Unhandled ''OverflowError''), w)"
proof (cases "decode_token cfg (now e) tok")
  case (Inl x)
  with assms(1) show ?thesis by (simp add: gate_rejects_def)
next
  case (Inr usr)
  with assms show ?thesis
    by (simp add: get_activity_def require_role_def get_current_user_def gate_rejects_def)
qed

text \<open>
  Claim C8, as the code has it. Three failures of the claim. The bound fails for a
  negative limit: the listing with \<open>limit = -1\<close> of a log of three rows returns all three
  entries. The example fails for records of the same second: after three log writes in
  one second, the listing with limit 2 is the first record and then the second, not the
  third and the second (\<open>ORDER BY a.created_at DESC\<close> has no tie-break and
  \<open>CURRENT_TIMESTAMP\<close> counts whole seconds). And a limit of \<open>2^63\<close> returns no listing
  but the unhandled \<open>OverflowError\<close>.
\<close>

theorem listing_fails_on_negative_limit_and_same_second:
  "get_activity example_config example_env (Some (- 1)) admin_token logged_world
     = (Inr logged_entries, logged_world)
   \<and> length logged_entries = 3
   \<and> \<not> int (length logged_entries) \<le> - 1
   \<and> log_activity (env_at 100) 1 ''login'' (Some ''/api/v1/auth/login'') None
        (Some ''10.0.0.1'') example_world = Inr same_second_once
   \<and> log_activity (env_at 100) 1 ''property_search'' (Some ''/api/v1/properties/search'')
        (Some ''Austin, TX'') (Some ''10.0.0.1'') same_second_once = Inr same_second_twice
   \<and> log_activity (env_at 100) 1 ''ai_query'' (Some ''/api/v1/ai/query'') (Some ''cap rate?'')
        (Some ''10.0.0.1'') same_second_twice = Inr same_second_world
   \<and> get_activity example_config example_env (Some 2) admin_token same_second_world
     = (Inr same_second_listing, same_second_world)
   \<and> map e_id same_second_listing = [1, 2]
   \<and> map e_action same_second_listing = [''login'', ''property_search'']
   \<and> get_activity example_config example_env (Some (2 ^ 63)) admin_token logged_world
     = (Inl (Unhandled ''OverflowError''), logged_world)"
  by (simp add: get_activity_def require_role_def get_current_user_def decode_token_def
        create_token_def JWT_EXPIRY_HOURS_def select_activity_def sql_limit_def sqlite_int_def
        left_join_users_def activity_entry_of_def log_activity_def next_id_def env_at_def
        logged_world_def logged_entries_def same_second_once_def same_second_twice_def
        same_second_world_def same_second_listing_def
        example_config_def example_env_def admin_token_def example_world_def alice_def bob_def)

text \<open>
  Claim C8, amended. For every state and every limit \<open>n\<close> that fits a signed 64-bit
  integer: when \<open>0 \<le> n\<close> the listing has at most \<open>n\<close> entries and is the first \<open>n\<close> of the
  whole listing; when \<open>n < 0\<close> it is the whole listing; it is ordered by timestamp, most
  recent first, strictly so when no two log rows share a timestamp (user ids unique),
  and nothing is said of the order of entries of the same second; a log
  row whose user id is in no user row appears with \<open>None\<close> as name and email, and a row
  of a known user with that user's name and email. With a token the gate accepts,
  \<open>get_activity\<close> returns the listing for the given limit, 100 when none is given, and
  changes nothing, if the limit fits 64 bits and the \<open>SELECT\<close> answers; it raises
  \<open>OverflowError\<close> if the limit does not fit. After three log writes at increasing
  times, later than every row before them, in a table with unique user ids, the listing
  with limit 2 is the third record and then the second.
\<close>

theorem activity_listing_bounded_newest_first:
  "(0 \<le> n \<longrightarrow> int (length (select_activity w n)) \<le> n
              \<and> select_activity w n = take (nat n) (select_activity w (- 1)))
   \<and> (n < 0 \<longrightarrow> select_activity w n = select_activity w (- 1))
   \<and> newest_first (select_activity w n)
   \<and> (distinct (map u_id (users w)) \<and> distinct (map a_created_at (activity_log w)) \<longrightarrow>
        strictly_newest_first (select_activity w n))
   \<and> (a \<in> set (activity_log w) \<and> a_user_id a \<notin> Some ` u_id ` set (users w) \<longrightarrow>
        activity_entry_of a None None \<in> set (select_activity w (- 1)))
   \<and> (a \<in> set (activity_log w) \<and> u \<in> set (users w) \<and> a_user_id a = Some (u_id u) \<longrightarrow>
        activity_entry_of a (Some (u_name u)) (Some (u_email u)) \<in> set (select_activity w (- 1)))
   \<and> (\<not> gate_rejects [''admin'', ''manager''] cfg (now e) tok \<and> \<not> fault e SelectActivity
        \<and> sqlite_int (case lmt of None \<Rightarrow> 100 | Some k \<Rightarrow> k) \<longrightarrow>
        get_activity cfg e lmt tok w
          = (Inr (select_activity w (case lmt of None \<Rightarrow> 100 | Some k \<Rightarrow> k)), w))
   \<and> (\<not> gate_rejects [''admin'', ''manager''] cfg (now e) tok
        \<and> \<not> sqlite_int (case lmt of None \<Rightarrow> 100 | Some k \<Rightarrow> k) \<longrightarrow>
        get_activity cfg e lmt tok w = (Inl (Unhandled ''OverflowError''), w))
   \<and> (distinct (map u_id (users w))
        \<and> (\<forall>x\<in>set (activity_log w). a_created_at x < now e1)
        \<and> now e1 < now e2 \<and> now e2 < now e3
        \<and> log_activity e1 u1 act1 ep1 det1 ip1 w = Inr w1
        \<and> log_activity e2 u2 act2 ep2 det2 ip2 w1 = Inr w2
        \<and> log_activity e3 u3 act3 ep3 det3 ip3 w2 = Inr w3 \<longrightarrow>
        map (\<lambda>r. (e_action r, e_details r, e_timestamp r)) (select_activity w3 2)
          = [(act3, det3, now e3), (act2, det2, now e2)])"
proof (intro conjI impI)
  show "newest_first (select_activity w n)"
    by (rule select_activity_newest_first)
next
  assume "0 \<le> n"
  then show "int (length (select_activity w n)) \<le> n"
    by (rule select_activity_length)
next
  assume "0 \<le> n"
  then show "select_activity w n = take (nat n) (select_activity w (- 1))"
    by (rule select_activity_prefix)
next
  assume "n < 0"
  then show "select_activity w n = select_activity w (- 1)"
    by (rule select_activity_negative)
next
  assume "distinct (map u_id (users w)) \<and> distinct (map a_created_at (activity_log w))"
  then show "strictly_newest_first (select_activity w n)"
    using select_activity_strict [of w n] by simp
next
  assume "a \<in> set (activity_log w) \<and> a_user_id a \<notin> Some ` u_id ` set (users w)"
  then show "activity_entry_of a None None \<in> set (select_activity w (- 1))"
    using select_activity_missing_actor [of a w] by simp
next
  assume "a \<in> set (activity_log w) \<and> u \<in> set (users w) \<and> a_user_id a = Some (u_id u)"
  then show "activity_entry_of a (Some (u_name u)) (Some (u_email u))
               \<in> set (select_activity w (- 1))"
    using select_activity_known_actor [of a w u] by simp
next
  assume "\<not> gate_rejects [''admin'', ''manager''] cfg (now e) tok \<and> \<not> fault e SelectActivity
        \<and> sqlite_int (case lmt of None \<Rightarrow> 100 | Some k \<Rightarrow> k)"
  then show "get_activity cfg e lmt tok w
          = (Inr (select_activity w (case lmt of None \<Rightarrow> 100 | Some k \<Rightarrow> k)), w)"
    using get_activity_accepted [of cfg e tok lmt w] by simp
next
  assume "\<not> gate_rejects [''admin'', ''manager''] cfg (now e) tok
        \<and> \<not> sqlite_int (case lmt of None \<Rightarrow> 100 | Some k \<Rightarrow> k)"
  then show "get_activity cfg e lmt tok w = (Inl (Unhandled ''OverflowError''), w)"
    using get_activity_overflow [of cfg e tok lmt w] by simp
next
  assume h: "distinct (map u_id (users w))
        \<and> (\<forall>x\<in>set (activity_log w). a_created_at x < now e1)
        \<and> now e1 < now e2 \<and> now e2 < now e3
        \<and> log_activity e1 u1 act1 ep1 det1 ip1 w = Inr w1
        \<and> log_activity e2 u2 act2 ep2 det2 ip2 w1 = Inr w2
        \<and> log_activity e3 u3 act3 ep3 det3 ip3 w2 = Inr w3"
  show "map (\<lambda>r. (e_action r, e_details r, e_timestamp r)) (select_activity w3 2)
          = [(act3, det3, now e3), (act2, det2, now e2)]"
    using h
    by (intro three_records_listing [of w e1 e2 e3 u1 act1 ep1 det1 ip1 w1
                u2 act2 ep2 det2 ip2 w2 u3 act3 ep3 det3 ip3 w3]) simp_all
qed

theorem activity_listing_bounded_newest_first_witness:
  "(0::int) \<le> 2
   \<and> int (length (select_activity logged_world 2)) \<le> 2
   \<and> select_activity logged_world 2 = take 2 logged_entries
   \<and> (- 5::int) < 0
   \<and> select_activity logged_world (- 5) = logged_entries
   \<and> newest_first (select_activity logged_world 2)
   \<and> distinct (map u_id (users logged_world))
   \<and> distinct (map a_created_at (activity_log logged_world))
   \<and> strictly_newest_first (select_activity logged_world 2)
   \<and> activity_log logged_world ! 1 \<in> set (activity_log logged_world)
   \<and> a_user_id (activity_log logged_world ! 1) \<notin> Some ` u_id ` set (users logged_world)
   \<and> activity_entry_of (activity_log logged_world ! 1) None None
        \<in> set (select_activity logged_world (- 1))
   \<and> activity_log logged_world ! 0 \<in> set (activity_log logged_world)
   \<and> alice \<in> set (users logged_world)
   \<and> a_user_id (activity_log logged_world ! 0) = Some (u_id alice)
   \<and> activity_entry_of (activity_log logged_world ! 0) (Some (u_name alice)) (Some (u_email alice))
        \<in> set (select_activity logged_world (- 1))
   \<and> \<not> gate_rejects [''admin'', ''manager''] example_config (now example_env) admin_token
   \<and> \<not> fault example_env SelectActivity
   \<and> sqlite_int 100
   \<and> get_activity example_config example_env None admin_token logged_world
        = (Inr (select_activity logged_world 100), logged_world)
   \<and> \<not> sqlite_int (- (2 ^ 63) - 1)
   \<and> get_activity example_config example_env (Some (- (2 ^ 63) - 1)) admin_token logged_world
        = (Inl (Unhandled ''OverflowError''), logged_world)
   \<and> distinct (map u_id (users example_world))
   \<and> now (env_at 100) < now (env_at 200) \<and> now (env_at 200) < now (env_at 300)
   \<and> log_activity (env_at 100) 1 ''login'' (Some ''/api/v1/auth/login'') None
        (Some ''10.0.0.1'') example_world = Inr logged_once
   \<and> log_activity (env_at 200) 9 ''skip_trace'' (Some ''/api/v1/skip-trace'') (Some ''1 Main St'')
        (Some ''10.0.0.9'') logged_once = Inr logged_twice
   \<and> log_activity (env_at 300) 1 ''ai_query'' (Some ''/api/v1/ai/query'') (Some ''cap rate?'')
        (Some ''10.0.0.1'') logged_twice = Inr logged_world
   \<and> map (\<lambda>r. (e_action r, e_details r, e_timestamp r)) (select_activity logged_world 2)
        = [(''ai_query'', Some ''cap rate?'', 300), (''skip_trace'', Some ''1 Main St'', 200)]"
  using activity_listing_bounded_newest_first
          [where n = 2 and w = logged_world and a = "activity_log logged_world ! 1"
             and cfg = example_config and e = example_env and tok = admin_token and lmt = None]
        activity_listing_bounded_newest_first
          [where n = "- 5" and w = logged_world and a = "activity_log logged_world ! 0"
             and u = alice and cfg = example_config and e = example_env and tok = admin_token
             and lmt = "Some (- (2 ^ 63) - 1)"]
        activity_listing_bounded_newest_first
          [where w = example_world and ?e1.0 = "env_at 100" and ?e2.0 = "env_at 200"
             and ?e3.0 = "env_at 300" and ?w1.0 = logged_once and ?w2.0 = logged_twice
             and ?w3.0 = logged_world and ?u1.0 = 1 and ?u2.0 = 9 and ?u3.0 = 1
             and ?act1.0 = "''login''" and ?act2.0 = "''skip_trace''" and ?act3.0 = "''ai_query''"
             and ?ep1.0 = "Some ''/api/v1/auth/login''" and ?ep2.0 = "Some ''/api/v1/skip-trace''"
             and ?ep3.0 = "Some ''/api/v1/ai/query''" and ?det1.0 = None
             and ?det2.0 = "Some ''1 Main St''" and ?det3.0 = "Some ''cap rate?''"
             and ?ip1.0 = "Some ''10.0.0.1''" and ?ip2.0 = "Some ''10.0.0.9''"
             and ?ip3.0 = "Some ''10.0.0.1''"]
  by (simp add: select_activity_def sql_limit_def left_join_users_def activity_entry_of_def
        gate_rejects_def decode_token_def create_token_def JWT_EXPIRY_HOURS_def sqlite_int_def
        log_activity_def next_id_def env_at_def logged_once_def logged_twice_def
        logged_world_def logged_entries_def example_world_def
        example_config_def example_env_def admin_token_def alice_def bob_def)

section \<open>AI assistant\<close>

lemma log_activity_upstream_calls:
  "log_activity e uid action ep det ipo w = Inr w' \<Longrightarrow> upstream_calls w' = upstream_calls w"
  by (auto simp: log_activity_def split: if_splits)

lemma query_openai_calls:
  "query_openai cfg e p c w = (r, w') \<Longrightarrow>
     upstream_calls w' = upstream_calls w
     \<or> upstream_calls w' = upstream_calls w @ [(OPENAI_URL, openai_payload p c)]"
  by (auto simp: query_openai_def Let_def split: if_splits sum.splits)

lemma openai_payload_model:
  "dict_get (openai_payload p c) ''model'' JNull = Inr (JStr ''gpt-4o'')"
  by (simp add: openai_payload_def)

lemma ai_query_calls:
  "upstream_calls (snd (ai_query cfg e req ip tok w)) = upstream_calls w
   \<or> (\<exists>body. upstream_calls (snd (ai_query cfg e req ip tok w))
                = upstream_calls w @ [(OPENAI_URL, body)]
             \<and> dict_get body ''model'' JNull = Inr (JStr ''gpt-4o''))"
proof (cases "get_current_user cfg (now e) tok")
  case (Inl x)
  then show ?thesis by (simp add: ai_query_def)
next
  case (Inr usr)
  let ?ctx = "ai_query_context req"
  obtain r w1 where q: "query_openai cfg e (req_query req) (Some ?ctx) w = (r, w1)"
    by (cases "query_openai cfg e (req_query req) (Some ?ctx) w") auto
  have calls1: "upstream_calls w1 = upstream_calls w
     \<or> upstream_calls w1
        = upstream_calls w @ [(OPENAI_URL, openai_payload (req_query req) (Some ?ctx))]"
    by (rule query_openai_calls [OF q])
  have "upstream_calls (snd (ai_query cfg e req ip tok w)) = upstream_calls w1"
  proof (cases r)
    case (Inl x)
    with Inr q show ?thesis by (simp add: ai_query_def Let_def)
  next
    case r: (Inr response)
    show ?thesis
    proof (cases "log_activity e (tok_user_id usr) ''ai_query'' (Some ''/api/v1/ai/query'')
                    (Some (take 100 (req_query req))) (Some ip) w1")
      case (Inl x)
      with Inr q r show ?thesis by (simp add: ai_query_def Let_def)
    next
      case (Inr w2)
      with \<open>get_current_user cfg (now e) tok = Inr usr\<close> q r log_activity_upstream_calls [OF Inr]
      show ?thesis by (simp add: ai_query_def Let_def)
    qed
  qed
  with calls1 show ?thesis
    using openai_payload_model by auto
qed

lemma ai_query_model_echo:
  "ai_query cfg e req ip tok w = (Inr resp, w') \<Longrightarrow>
     dict_get resp ''model'' JNull = Inr (opt_str (req_model req))"
  by (auto simp: ai_query_def Let_def split: sum.splits prod.splits)

lemma ai_query_success:
  assumes "get_current_user cfg (now e) tok = Inr usr"
    and "OPENAI_API_KEY cfg \<noteq> []"
    and "openai_http e (openai_payload (req_query req) (Some (ai_query_context req))) = Inr data"
    and "openai_content data = Inr answer"
    and "\<not> fault e InsertActivity"
  shows "fst (ai_query cfg e req ip tok w)
           = Inr (JObj [(''response'', answer), (''model'', opt_str (req_model req))])
       \<and> upstream_calls (snd (ai_query cfg e req ip tok w))
           = upstream_calls w
             @ [(OPENAI_URL, openai_payload (req_query req) (Some (ai_query_context req)))]"
  using assms
  by (simp add: ai_query_def query_openai_def log_activity_def Let_def)

text \<open>
  Claim C10. Whenever \<open>ai_query\<close> returns a response, its \<open>model\<close> field is the \<open>model\<close>
  field of the request, which is \<open>gpt-4o\<close> when the request body leaves it out. A request
  sends at most one upstream call, to the OpenAI URL, and the body of that call always
  names the model \<open>gpt-4o\<close>. With a valid token, a configured key, an upstream answer that
  has a content and the log write succeeding, the response is returned with the
  requested model while the one call made names \<open>gpt-4o\<close>.
\<close>

theorem ai_query_echoes_requested_model:
  "(ai_query cfg e req ip tok w = (Inr resp, w') \<longrightarrow>
       dict_get resp ''model'' JNull = Inr (opt_str (req_model req)))
   \<and> (upstream_calls (snd (ai_query cfg e req ip tok w)) = upstream_calls w
       \<or> (\<exists>body. upstream_calls (snd (ai_query cfg e req ip tok w))
                    = upstream_calls w @ [(OPENAI_URL, body)]
                 \<and> dict_get body ''model'' JNull = Inr (JStr ''gpt-4o'')))
   \<and> req_model (AIQueryRequest q c None) = Some ''gpt-4o''
   \<and> (get_current_user cfg (now e) tok = Inr usr
       \<and> OPENAI_API_KEY cfg \<noteq> []
       \<and> openai_http e (openai_payload (req_query req) (Some (ai_query_context req))) = Inr data
       \<and> openai_content data = Inr answer
       \<and> \<not> fault e InsertActivity \<longrightarrow>
         fst (ai_query cfg e req ip tok w)
           = Inr (JObj [(''response'', answer), (''model'', opt_str (req_model req))])
       \<and> upstream_calls (snd (ai_query cfg e req ip tok w))
           = upstream_calls w
             @ [(OPENAI_URL, openai_payload (req_query req) (Some (ai_query_context req)))]
       \<and> dict_get (openai_payload (req_query req) (Some (ai_query_context req))) ''model'' JNull
           = Inr (JStr ''gpt-4o''))"
proof (intro conjI impI)
  assume "ai_query cfg e req ip tok w = (Inr resp, w')"
  then show "dict_get resp ''model'' JNull = Inr (opt_str (req_model req))"
    by (rule ai_query_model_echo)
next
  show "upstream_calls (snd (ai_query cfg e req ip tok w)) = upstream_calls w
       \<or> (\<exists>body. upstream_calls (snd (ai_query cfg e req ip tok w))
                    = upstream_calls w @ [(OPENAI_URL, body)]
                 \<and> dict_get body ''model'' JNull = Inr (JStr ''gpt-4o''))"
    by (rule ai_query_calls)
next
  show "req_model (AIQueryRequest q c None) = Some ''gpt-4o''"
    by (simp add: AIQueryRequest_def)
next
  assume h: "get_current_user cfg (now e) tok = Inr usr
       \<and> OPENAI_API_KEY cfg \<noteq> []
       \<and> openai_http e (openai_payload (req_query req) (Some (ai_query_context req))) = Inr data
       \<and> openai_content data = Inr answer
       \<and> \<not> fault e InsertActivity"
  then have s: "fst (ai_query cfg e req ip tok w)
           = Inr (JObj [(''response'', answer), (''model'', opt_str (req_model req))])
       \<and> upstream_calls (snd (ai_query cfg e req ip tok w))
           = upstream_calls w
             @ [(OPENAI_URL, openai_payload (req_query req) (Some (ai_query_context req)))]"
    using ai_query_success [of cfg e tok usr req data answer ip w] by simp
  from s show "fst (ai_query cfg e req ip tok w)
           = Inr (JObj [(''response'', answer), (''model'', opt_str (req_model req))])" ..
  from s show "upstream_calls (snd (ai_query cfg e req ip tok w))
           = upstream_calls w
             @ [(OPENAI_URL, openai_payload (req_query req) (Some (ai_query_context req)))]" ..
  show "dict_get (openai_payload (req_query req) (Some (ai_query_context req))) ''model'' JNull
           = Inr (JStr ''gpt-4o'')"
    by (rule openai_payload_model)
qed

text \<open>A request for \<open>gpt-3.5-turbo\<close>: the response says so, the upstream call says \<open>gpt-4o\<close>.\<close>

theorem ai_query_echoes_requested_model_witness:
  "req_model example_question = Some ''gpt-3.5-turbo''
   \<and> get_current_user example_config (now example_env) admin_token
       = Inr \<lparr>tok_user_id = 1, tok_email = ''alice@example.com'', tok_role = ''admin'',
               tok_exp = 87300\<rparr>
   \<and> OPENAI_API_KEY example_config \<noteq> []
   \<and> openai_http example_env
        (openai_payload (req_query example_question) (Some (ai_query_context example_question)))
       = Inr (JObj [(''choices'', JList [JObj [(''message'', JObj [(''content'', JStr ''Hello'')])]])])
   \<and> openai_content
        (JObj [(''choices'', JList [JObj [(''message'', JObj [(''content'', JStr ''Hello'')])]])])
       = Inr (JStr ''Hello'')
   \<and> \<not> fault example_env InsertActivity
   \<and> fst (ai_query example_config example_env example_question ''10.0.0.1'' admin_token
            example_world)
       = Inr (JObj [(''response'', JStr ''Hello''), (''model'', JStr ''gpt-3.5-turbo'')])
   \<and> dict_get (JObj [(''response'', JStr ''Hello''), (''model'', JStr ''gpt-3.5-turbo'')])
        ''model'' JNull = Inr (JStr ''gpt-3.5-turbo'')
   \<and> upstream_calls (snd (ai_query example_config example_env example_question ''10.0.0.1''
                             admin_token example_world))
       = [(OPENAI_URL,
           JObj [(''model'', JStr ''gpt-4o''),
                 (''messages'', JList [JObj [(''role'', JStr ''system''),
                                             (''content'', JStr DEFAULT_CONTEXT)],
                                       JObj [(''role'', JStr ''user''),
                                             (''content'', JStr ''What is a cap rate?'')]]),
                 (''max_tokens'', JInt 1000)])]"
  using ai_query_echoes_requested_model
          [where cfg = example_config and e = example_env and req = example_question
             and ip = "''10.0.0.1''" and tok = admin_token and w = example_world
             and usr = "\<lparr>tok_user_id = 1, tok_email = ''alice@example.com'', tok_role = ''admin'',
                          tok_exp = 87300\<rparr>"
             and data = "JObj [(''choices'', JList [JObj [(''message'',
                                  JObj [(''content'', JStr ''Hello'')])]])]"
             and answer = "JStr ''Hello''"
             and resp = "JObj [(''response'', JStr ''Hello''), (''model'', JStr ''gpt-3.5-turbo'')]"
             and w' = "snd (ai_query example_config example_env example_question ''10.0.0.1''
                              admin_token example_world)"]
  by (simp add: get_current_user_def decode_token_def create_token_def JWT_EXPIRY_HOURS_def
        openai_content_def openai_payload_def openai_messages_def ai_query_context_def
        DEFAULT_CONTEXT_def
        example_question_def AIQueryRequest_def example_config_def example_env_def
        admin_token_def example_world_def)

end
